theory Spec2Isabelle
  imports Main "HOL-Library.Word" "HOL-Library.AList"
begin

section \<open>JavaScript values used by the client\<close>

subsection \<open>Strings and bytes\<close>

text \<open>
  A JavaScript string is a sequence of UTF-16 code units, and \<open>s.length\<close> counts code
  units. A \<open>Buffer\<close> is a sequence of bytes. String literals of the source are written
  \<open>js ''...''\<close>.
\<close>

type_synonym js_char = "16 word"
type_synonym js_string = "js_char list"
type_synonym bytes = "8 word list"

definition js :: "string \<Rightarrow> js_string" where
  "js s = map of_char s"

text \<open>
  Truthiness of an optional string, as \<open>if (x)\<close>, \<open>!x\<close> and \<open>x || y\<close> test it:
  \<open>undefined\<close> and the empty string are falsy.
\<close>

definition truthy :: "js_string option \<Rightarrow> bool" where
  "truthy x = (case x of None \<Rightarrow> False | Some s \<Rightarrow> s \<noteq> [])"

text \<open>\<open>Array.prototype.join\<close> on an array of strings.\<close>

fun join :: "js_string \<Rightarrow> js_string list \<Rightarrow> js_string" where
  "join sep [] = []"
| "join sep [x] = x"
| "join sep (x # y # ys) = x @ sep @ join sep (y # ys)"

text \<open>
  \<open>String.prototype.trim\<close> removes white space and line terminators from both ends.
\<close>

definition is_space :: "js_char \<Rightarrow> bool" where
  "is_space c =
     (c \<in> set [0x09, 0x0A, 0x0B, 0x0C, 0x0D, 0x20, 0xA0, 0x1680, 0x2028, 0x2029,
                0x202F, 0x205F, 0x3000, 0xFEFF]
      \<or> (0x2000 \<le> c \<and> c \<le> 0x200A))"

definition trim :: "js_string \<Rightarrow> js_string" where
  "trim s = rev (dropWhile is_space (rev (dropWhile is_space s)))"

subsection \<open>Surrogates and the UTF-8 encoding of a string\<close>

definition is_high :: "js_char \<Rightarrow> bool" where
  "is_high c = (0xD800 \<le> c \<and> c \<le> 0xDBFF)"

definition is_low :: "js_char \<Rightarrow> bool" where
  "is_low c = (0xDC00 \<le> c \<and> c \<le> 0xDFFF)"

text \<open>
  The bytes that \<open>fetch\<close> puts on the wire for a string body: the UTF-8 encoding of the
  string, a surrogate pair giving one four-byte sequence and a lone surrogate the
  replacement character U+FFFD.
\<close>

definition utf8_unit :: "js_char \<Rightarrow> bytes" where
  "utf8_unit c =
     (let n = unat c in
      if n < 128 then [of_nat n]
      else if n < 2048 then [of_nat (192 + n div 64), of_nat (128 + n mod 64)]
      else [of_nat (224 + n div 4096), of_nat (128 + n div 64 mod 64), of_nat (128 + n mod 64)])"

definition utf8_pair :: "js_char \<Rightarrow> js_char \<Rightarrow> bytes" where
  "utf8_pair h l =
     (let cp = 65536 + (unat h - 55296) * 1024 + (unat l - 56320) in
      [of_nat (240 + cp div 262144), of_nat (128 + cp div 4096 mod 64),
       of_nat (128 + cp div 64 mod 64), of_nat (128 + cp mod 64)])"

fun utf8_encode :: "js_string \<Rightarrow> bytes" where
  "utf8_encode [] = []"
| "utf8_encode [c] = (if is_high c \<or> is_low c then [0xEF, 0xBF, 0xBD] else utf8_unit c)"
| "utf8_encode (c # d # ds) =
     (if is_high c \<and> is_low d then utf8_pair c d @ utf8_encode ds
      else if is_high c \<or> is_low c then [0xEF, 0xBF, 0xBD] @ utf8_encode (d # ds)
      else utf8_unit c @ utf8_encode (d # ds))"

definition byte_length :: "js_string \<Rightarrow> nat" where
  "byte_length s = length (utf8_encode s)"

subsection \<open>Errors\<close>

text \<open>
  A thrown value or a rejected promise is the \<open>Inl\<close> of a result. The two errors that
  the client itself creates are \<open>new Error("API key is required for Shoutbox")\<close> and
  \<open>new Error(`Body too large, expect 1MB, ${emailContent.length} bytes given`)\<close>, the
  latter carrying the number it prints. Everything a collaborator throws (file system,
  renderer, network, SMTP transport) is \<open>External\<close> with its message.
\<close>

datatype error = ApiKeyRequired | BodyTooLarge nat | External js_string

subsection \<open>JSON values and \<open>JSON.stringify\<close>\<close>

datatype json =
    JNull
  | JBool bool
  | JNumber nat
  | JString js_string
  | JArray "json list"
  | JObject "(js_string \<times> json) list"

definition truthy_json :: "json \<Rightarrow> bool" where
  "truthy_json j =
     (case j of JNull \<Rightarrow> False | JBool b \<Rightarrow> b | JNumber n \<Rightarrow> n \<noteq> 0
      | JString s \<Rightarrow> s \<noteq> [] | JArray _ \<Rightarrow> True | JObject _ \<Rightarrow> True)"

definition hexdigit :: "nat \<Rightarrow> js_char" where
  "hexdigit n = (if n < 10 then of_nat (48 + n) else of_nat (87 + n))"

definition unicode_escape :: "js_char \<Rightarrow> js_string" where
  "unicode_escape c =
     (let n = unat c in
      [0x5C, 0x75, hexdigit (n div 4096), hexdigit (n div 256 mod 16),
       hexdigit (n div 16 mod 16), hexdigit (n mod 16)])"

text \<open>One code unit that is not a surrogate, inside a JSON string literal.\<close>

definition escape_unit :: "js_char \<Rightarrow> js_string" where
  "escape_unit c =
     (if c = 0x08 then [0x5C, 0x62]
      else if c = 0x09 then [0x5C, 0x74]
      else if c = 0x0A then [0x5C, 0x6E]
      else if c = 0x0C then [0x5C, 0x66]
      else if c = 0x0D then [0x5C, 0x72]
      else if c = 0x22 then [0x5C, 0x22]
      else if c = 0x5C then [0x5C, 0x5C]
      else if c < 0x20 then unicode_escape c
      else [c])"

fun escape_units :: "js_string \<Rightarrow> js_string" where
  "escape_units [] = []"
| "escape_units [c] = (if is_high c \<or> is_low c then unicode_escape c else escape_unit c)"
| "escape_units (c # d # ds) =
     (if is_high c \<and> is_low d then c # d # escape_units ds
      else if is_high c \<or> is_low c then unicode_escape c @ escape_units (d # ds)
      else escape_unit c @ escape_units (d # ds))"

definition quote :: "js_string \<Rightarrow> js_string" where
  "quote s = [0x22] @ escape_units s @ [0x22]"

function decimal :: "nat \<Rightarrow> js_string" where
  "decimal n = (if n < 10 then [of_nat (48 + n)]
                else decimal (n div 10) @ [of_nat (48 + n mod 10)])"
  by pat_completeness auto
termination
  by (relation "measure id") auto

declare decimal.simps [simp del]

fun stringify :: "json \<Rightarrow> js_string"
  and stringify_elems :: "json list \<Rightarrow> js_string list"
  and stringify_props :: "(js_string \<times> json) list \<Rightarrow> js_string list" where
  "stringify JNull = js ''null''"
| "stringify (JBool b) = (if b then js ''true'' else js ''false'')"
| "stringify (JNumber n) = decimal n"
| "stringify (JString s) = quote s"
| "stringify (JArray xs) = js ''['' @ join (js '','') (stringify_elems xs) @ js '']''"
| "stringify (JObject kvs) = js ''{'' @ join (js '','') (stringify_props kvs) @ js ''}''"
| "stringify_elems [] = []"
| "stringify_elems (x # xs) = stringify x # stringify_elems xs"
| "stringify_props [] = []"
| "stringify_props (kv # kvs) =
     (quote (fst kv) @ js '':'' @ stringify (snd kv)) # stringify_props kvs"


section \<open>The data model (types.ts)\<close>

text \<open>
  \<open>to\<close> and \<open>cc\<close> are \<open>string | string[]\<close>; an attachment's content is
  \<open>string | Buffer\<close>. A \<open>Record<string, string>\<close> is an association list in insertion
  order, which is the order \<open>Object.entries\<close> and \<open>JSON.stringify\<close> follow. The \<open>react\<close>
  field is of type \<open>any\<close>: the client only tests it, hands it to the renderer and lets
  \<open>JSON.stringify\<close> serialise it, so it is held as the JSON value it serialises to.
\<close>

datatype recipients = Single js_string | Several "js_string list"

datatype content = Text js_string | Buffer bytes

type_synonym string_record = "(js_string \<times> js_string) list"

record attachment =
  filename :: "js_string option"
  filepath :: js_string
  contentType :: "js_string option"
  content :: "content option"

record email_options =
  from' :: js_string
  name :: "js_string option"
  to' :: recipients
  subject :: js_string
  html :: "js_string option"
  text' :: "js_string option"
  react :: "json option"
  attachments :: "attachment list option"
  replyTo :: "js_string option"
  tags :: "string_record option"
  headers :: "string_record option"
  cc :: "recipients option"

definition truthy_content :: "content option \<Rightarrow> bool" where
  "truthy_content x =
     (case x of None \<Rightarrow> False | Some (Text s) \<Rightarrow> s \<noteq> [] | Some (Buffer b) \<Rightarrow> True)"

definition truthy_recipients :: "recipients option \<Rightarrow> bool" where
  "truthy_recipients x =
     (case x of None \<Rightarrow> False | Some (Single s) \<Rightarrow> s \<noteq> [] | Some (Several xs) \<Rightarrow> True)"

text \<open>
  What \<open>JSON.stringify(options)\<close> sees: the properties that are present, \<open>undefined\<close>
  ones left out. JavaScript lists properties in insertion order, which a record does not
  keep; the order of the interface declaration is taken. A \<open>Buffer\<close> serialises through
  its \<open>toJSON\<close> as \<open>{"type":"Buffer","data":[...]}\<close>.
\<close>

definition field :: "string \<Rightarrow> json option \<Rightarrow> (js_string \<times> json) list" where
  "field k v = (case v of None \<Rightarrow> [] | Some j \<Rightarrow> [(js k, j)])"

definition recipients_json :: "recipients \<Rightarrow> json" where
  "recipients_json r = (case r of Single s \<Rightarrow> JString s | Several xs \<Rightarrow> JArray (map JString xs))"

definition record_json :: "string_record \<Rightarrow> json" where
  "record_json kvs = JObject (map (\<lambda>kv. (fst kv, JString (snd kv))) kvs)"

definition content_json :: "content \<Rightarrow> json" where
  "content_json c =
     (case c of
        Text s \<Rightarrow> JString s
      | Buffer b \<Rightarrow> JObject [(js ''type'', JString (js ''Buffer'')),
                            (js ''data'', JArray (map (\<lambda>x. JNumber (unat x)) b))])"

definition attachment_json :: "attachment \<Rightarrow> json" where
  "attachment_json a =
     JObject (field ''filename'' (map_option JString (filename a))
              @ [(js ''filepath'', JString (filepath a))]
              @ field ''contentType'' (map_option JString (contentType a))
              @ field ''content'' (map_option content_json (content a)))"

definition options_props :: "email_options \<Rightarrow> (js_string \<times> json) list" where
  "options_props opts =
     [(js ''from'', JString (from' opts))]
     @ field ''name'' (map_option JString (name opts))
     @ [(js ''to'', recipients_json (to' opts)), (js ''subject'', JString (subject opts))]
     @ field ''html'' (map_option JString (html opts))
     @ field ''text'' (map_option JString (text' opts))
     @ field ''react'' (react opts)
     @ field ''attachments'' (map_option (\<lambda>as. JArray (map attachment_json as)) (attachments opts))
     @ field ''replyTo'' (map_option JString (replyTo opts))
     @ field ''tags'' (map_option record_json (tags opts))
     @ field ''headers'' (map_option record_json (headers opts))
     @ field ''cc'' (map_option recipients_json (cc opts))"

definition options_json :: "email_options \<Rightarrow> json" where
  "options_json opts = JObject (options_props opts)"

section \<open>Collaborators and effects\<close>

text \<open>
  The request handed to \<open>fetch\<close>, the response it resolves to, and the message handed to
  the SMTP transporter's \<open>sendMail\<close>. \<open>response.ok\<close> is true for a status from 200 to 299;
  \<open>response.json()\<close> and \<open>response.text()\<close> are promises and may reject.
\<close>

record request =
  url :: js_string
  http_method :: js_string
  req_headers :: string_record
  body :: js_string

record response =
  status :: nat
  json_body :: "error + json"
  text_body :: "error + js_string"

definition ok :: "response \<Rightarrow> bool" where
  "ok r = (200 \<le> status r \<and> status r \<le> 299)"

record mail_attachment =
  ma_filename :: js_string
  ma_content :: bytes
  ma_contentType :: js_string

record mail_options =
  m_from :: js_string
  m_to :: js_string
  m_cc :: "js_string option"
  m_subject :: js_string
  m_html :: "js_string option"
  m_text :: "js_string option"
  m_replyTo :: "js_string option"
  m_attachments :: "mail_attachment list"
  m_headers :: string_record

text \<open>The transporter that an \<open>SMTPClient\<close> holds, as its constructor configures it.\<close>

record smtp_client =
  host :: js_string
  port :: nat
  secure :: bool
  auth_user :: js_string
  auth_pass :: js_string
  rejectUnauthorized :: bool

text \<open>
  Everything outside the client: the environment variables, \<open>fs.promises.readFile\<close>,
  \<open>mime.lookup\<close> (\<open>None\<close> for its \<open>false\<close>), the renderer of @react-email/render, \<open>fetch\<close>,
  the transporter's \<open>sendMail\<close>, and the base64 codec of \<open>Buffer\<close>
  (\<open>buf.toString("base64")\<close> and \<open>Buffer.from(s, "base64")\<close>).
\<close>

record world =
  env_API_KEY :: "js_string option"
  env_API_ENDPOINT :: "js_string option"
  readFile :: "js_string \<Rightarrow> error + bytes"
  mime_lookup :: "js_string \<Rightarrow> js_string option"
  render :: "json \<Rightarrow> error + js_string"
  fetch :: "request \<Rightarrow> error + response"
  sendMail :: "smtp_client \<Rightarrow> mail_options \<Rightarrow> error + unit"
  toBase64 :: "bytes \<Rightarrow> js_string"
  fromBase64 :: "js_string \<Rightarrow> bytes"

text \<open>
  The effects of a call, in the order they happen: files read, templates rendered,
  console output, requests issued and messages submitted.
\<close>

datatype logged = LStr js_string | LJson json | LErr error

datatype event =
    ReadFile js_string
  | Render json
  | ConsoleLog "logged list"
  | ConsoleError "logged list"
  | Fetch request
  | SendMail mail_options

type_synonym 'a outcome = "(error + 'a) \<times> event list"

text \<open>
  \<open>path.basename\<close> (POSIX): trailing slashes are dropped, then the part after the last
  remaining slash is returned; a path of slashes only, or the empty path, gives the
  empty string.
\<close>

definition basename :: "js_string \<Rightarrow> js_string" where
  "basename p =
     rev (takeWhile (\<lambda>c. c \<noteq> 0x2F) (dropWhile (\<lambda>c. c = 0x2F) (rev p)))"

section \<open>Construction\<close>

subsection \<open>Shoutbox (src/index.ts)\<close>

record shoutbox =
  apiKey :: js_string

text \<open>
  \<^verbatim>\<open>this.apiKey = apiKey || process.env.SHOUTBOX_API_KEY!;
  if (!this.apiKey) { throw new Error("API key is required for Shoutbox"); }\<close>
\<close>

definition Shoutbox_constructor :: "world \<Rightarrow> js_string option \<Rightarrow> error + shoutbox" where
  "Shoutbox_constructor w key =
     (let k = (if truthy key then key else env_API_KEY w) in
      case k of
        None \<Rightarrow> Inl ApiKeyRequired
      | Some s \<Rightarrow> if s = [] then Inl ApiKeyRequired else Inr \<lparr>apiKey = s\<rparr>)"

subsection \<open>Shoutbox, the revision with template rendering\<close>

text \<open>
  \<^verbatim>\<open>constructor(apiKey?: string | null | undefined) {
    const key = apiKey === undefined ? process.env.SHOUTBOX_API_KEY : apiKey;
    if (!key || (typeof key === "string" && key.trim() === "")) { throw ... }
    this.apiKey = key; }\<close>
\<close>

datatype key_arg = Undefined | Null | Key js_string

definition Shoutbox_constructor_r :: "world \<Rightarrow> key_arg \<Rightarrow> error + shoutbox" where
  "Shoutbox_constructor_r w arg =
     (let key = (case arg of
                   Undefined \<Rightarrow> (case env_API_KEY w of None \<Rightarrow> Undefined | Some s \<Rightarrow> Key s)
                 | _ \<Rightarrow> arg) in
      case key of
        Key s \<Rightarrow> if s = [] \<or> trim s = [] then Inl ApiKeyRequired else Inr \<lparr>apiKey = s\<rparr>
      | _ \<Rightarrow> Inl ApiKeyRequired)"

subsection \<open>SMTPClient (src/smtp.ts)\<close>

text \<open>
  The constructor only builds the transporter from its argument:
  \<^verbatim>\<open>constructor(apiKey: string) {
    this.transporter = nodemailer.createTransport({ host: 'mail.shoutbox.net', port: 587,
      secure: false, auth: { user: 'shoutbox', pass: apiKey },
      tls: { rejectUnauthorized: true } }); }\<close>
\<close>

definition SMTPClient_constructor :: "js_string \<Rightarrow> error + smtp_client" where
  "SMTPClient_constructor key =
     Inr \<lparr>host = js ''mail.shoutbox.net'', port = 587, secure = False,
          auth_user = js ''shoutbox'', auth_pass = key, rejectUnauthorized = True\<rparr>"

section \<open>Regular-expression replacement\<close>

text \<open>
  A regular expression of the source is given by its matcher: applied to the input from
  some position on, it returns the number of code units that its match there covers,
  and \<open>None\<close> when it does not match at that position. \<open>replace_first\<close> is
  \<open>String.prototype.replace\<close> with a regular expression without the \<open>g\<close> flag (the
  leftmost match only), \<open>replace_all\<close> with the \<open>g\<close> flag (matches taken from left to
  right, the search resuming after each one; after an empty match it moves one code
  unit on). The replacement strings of the source contain no \<open>$\<close> pattern.
\<close>

fun replace_first :: "(js_string \<Rightarrow> nat option) \<Rightarrow> js_string \<Rightarrow> js_string \<Rightarrow> js_string" where
  "replace_first m new [] = (case m [] of None \<Rightarrow> [] | Some n \<Rightarrow> new)"
| "replace_first m new (c # cs) =
     (case m (c # cs) of
        None \<Rightarrow> c # replace_first m new cs
      | Some n \<Rightarrow> new @ drop n (c # cs))"

function replace_all :: "(js_string \<Rightarrow> nat option) \<Rightarrow> js_string \<Rightarrow> js_string \<Rightarrow> js_string" where
  "replace_all m new [] = (case m [] of None \<Rightarrow> [] | Some n \<Rightarrow> new)"
| "replace_all m new (c # cs) =
     (case m (c # cs) of
        None \<Rightarrow> c # replace_all m new cs
      | Some n \<Rightarrow> if n = 0 then new @ c # replace_all m new cs
                  else new @ replace_all m new (drop n (c # cs)))"
  by pat_completeness auto
termination
  by (relation "measure (\<lambda>(m, new, s). length s)") auto

declare replace_all.simps [simp del]

text \<open>
  \<open>[^>]*>\<close> from a position on: everything up to and including the next \<open>>\<close>.
  With the \<open>i\<close> flag (and no \<open>u\<close> flag) an ASCII letter of the pattern matches exactly its
  two cases.
\<close>

definition until_gt :: "js_string \<Rightarrow> nat option" where
  "until_gt s = (if 0x3E \<in> set s then Some (length (takeWhile (\<lambda>c. c \<noteq> 0x3E) s) + 1) else None)"

definition lower :: "js_char \<Rightarrow> js_char" where
  "lower c = (if 0x41 \<le> c \<and> c \<le> 0x5A then c + 0x20 else c)"

definition starts_with :: "js_string \<Rightarrow> js_string \<Rightarrow> bool" where
  "starts_with p s = (take (length p) s = p)"

definition starts_with_ci :: "js_string \<Rightarrow> js_string \<Rightarrow> bool" where
  "starts_with_ci p s = (length p \<le> length s \<and> map lower (take (length p) s) = map lower p)"

text \<open>\<^verbatim>\<open>/<[^>]*>/\<close>\<close>

definition match_tag :: "js_string \<Rightarrow> nat option" where
  "match_tag s =
     (case s of [] \<Rightarrow> None
      | c # cs \<Rightarrow> if c = 0x3C then map_option Suc (until_gt cs) else None)"

text \<open>\<^verbatim>\<open>/<!DOCTYPE[^>]*>/i\<close>\<close>

definition match_doctype :: "js_string \<Rightarrow> nat option" where
  "match_doctype s =
     (if starts_with_ci (js ''<!doctype'') s
      then map_option (\<lambda>n. 9 + n) (until_gt (drop 9 s)) else None)"

text \<open>\<^verbatim>\<open>/<\/?html[^>]*>/i\<close>\<close>

definition match_html_tag :: "js_string \<Rightarrow> nat option" where
  "match_html_tag s =
     (if starts_with_ci (js ''</html'') s then map_option (\<lambda>n. 6 + n) (until_gt (drop 6 s))
      else if starts_with_ci (js ''<html'') s then map_option (\<lambda>n. 5 + n) (until_gt (drop 5 s))
      else None)"

text \<open>\<^verbatim>\<open>/\$<|>\$\//\<close>\<close>

definition match_marker_lt :: "js_string \<Rightarrow> nat option" where
  "match_marker_lt s =
     (if starts_with (js ''$<'') s then Some 2
      else if starts_with (js ''>$/'') s then Some 3 else None)"

text \<open>\<^verbatim>\<open>/\$|\/\$/\<close>\<close>

definition match_marker :: "js_string \<Rightarrow> nat option" where
  "match_marker s =
     (if starts_with (js ''$'') s then Some 1
      else if starts_with (js ''/$'') s then Some 2 else None)"

text \<open>
  \<^verbatim>\<open>private stripHtml(html: string): string { return html.replace(/<[^>]*>/g, ''); }\<close>
\<close>

definition stripHtml :: "js_string \<Rightarrow> js_string" where
  "stripHtml h = replace_all match_tag [] h"

text \<open>
  \<^verbatim>\<open>private cleanRenderedHtml(html: string): string {
    // Remove DOCTYPE, html envelope tags, and the $ /$ markers
    return html.replace(/<!DOCTYPE[^>]*>/i, "").replace(/<\/?html[^>]*>/gi, "")
      .replace(/\$<|>\$\//g, "<").replace(/\$|\/\$/g, "").trim(); }\<close>
\<close>

definition cleanRenderedHtml :: "js_string \<Rightarrow> js_string" where
  "cleanRenderedHtml h =
     trim (replace_all match_marker []
            (replace_all match_marker_lt (js ''<'')
              (replace_all match_html_tag []
                (replace_first match_doctype [] h))))"

text \<open>
  The words of the specification for the text fallback: every substring from a \<open><\<close>
  through the next \<open>>\<close> is removed.
\<close>

function remove_tags :: "js_string \<Rightarrow> js_string" where
  "remove_tags s =
     (let before = takeWhile (\<lambda>c. c \<noteq> 0x3C) s;
          from_lt = dropWhile (\<lambda>c. c \<noteq> 0x3C) s in
      if from_lt = [] then before
      else if 0x3E \<in> set (tl from_lt)
      then before @ remove_tags (tl (dropWhile (\<lambda>c. c \<noteq> 0x3E) (tl from_lt)))
      else before @ from_lt)"
  by pat_completeness auto
termination
proof (relation "measure length", goal_cases)
  case 1
  show ?case by simp
next
  case (2 s before from_lt)
  have a: "length (dropWhile (\<lambda>c. c \<noteq> 0x3E) (tl from_lt)) \<le> length (tl from_lt)"
    by (rule length_dropWhile_le)
  have b: "length from_lt \<le> length s"
    unfolding 2(2) by (rule length_dropWhile_le)
  from 2(3) have c: "length (tl from_lt) < length from_lt"
    by (cases from_lt) auto
  from a b c show ?case by (simp add: less_Suc_eq_le)
qed

declare remove_tags.simps [simp del]

section \<open>Attachments\<close>

text \<open>\<open>x || d\<close> for an optional string \<open>x\<close> and a string \<open>d\<close>.\<close>

definition or_string :: "js_string option \<Rightarrow> js_string \<Rightarrow> js_string" where
  "or_string x d = (case x of None \<Rightarrow> d | Some s \<Rightarrow> if s = [] then d else s)"

definition read_file :: "world \<Rightarrow> js_string \<Rightarrow> content outcome" where
  "read_file w p =
     (case readFile w p of
        Inl err \<Rightarrow> (Inl err, [ReadFile p])
      | Inr b \<Rightarrow> (Inr (Buffer b), [ReadFile p]))"

text \<open>
  Both paths take the content that is there and read the file otherwise:
  \<^verbatim>\<open>if (!e.content) { e.content = await fs.promises.readFile(e.filepath); }\<close> and
  \<^verbatim>\<open>attachment.content || await fs.promises.readFile(attachment.filepath)\<close>.
\<close>

definition content_or_read :: "world \<Rightarrow> attachment \<Rightarrow> content outcome" where
  "content_or_read w e =
     (case content e of
        None \<Rightarrow> read_file w (filepath e)
      | Some c \<Rightarrow> if truthy_content (Some c) then (Inr c, []) else read_file w (filepath e))"

definition octet_stream :: js_string where
  "octet_stream = js ''application/octet-stream''"

text \<open>
  The body of the loop of \<open>Shoutbox.send\<close>:
  \<^verbatim>\<open>if (!e.content) { e.content = await fs.promises.readFile(e.filepath); }
  if (!e.filename) { e.filename = basename(e.filepath); }
  if (!e.contentType) { e.contentType = mime.lookup(e.filename) || "application/octet-stream"; }
  if (typeof e.content === "object") { e.content = e.content.toString("base64"); }\<close>
\<close>

definition resolve_attachment :: "world \<Rightarrow> attachment \<Rightarrow> attachment outcome" where
  "resolve_attachment w e =
     (case content_or_read w e of
        (Inl err, ev) \<Rightarrow> (Inl err, ev)
      | (Inr c, ev) \<Rightarrow>
          (let e1 = e\<lparr>content := Some c\<rparr>;
               e2 = (if truthy (filename e1) then e1
                     else e1\<lparr>filename := Some (basename (filepath e1))\<rparr>);
               e3 = (if truthy (contentType e2) then e2
                     else e2\<lparr>contentType :=
                            Some (or_string (case filename e2 of None \<Rightarrow> None
                                             | Some f \<Rightarrow> mime_lookup w f) octet_stream)\<rparr>);
               e4 = (case content e3 of
                       Some (Buffer b) \<Rightarrow> e3\<lparr>content := Some (Text (toBase64 w b))\<rparr>
                     | _ \<Rightarrow> e3)
           in (Inr e4, ev)))"

fun resolve_attachments :: "world \<Rightarrow> attachment list \<Rightarrow> attachment list outcome" where
  "resolve_attachments w [] = (Inr [], [])"
| "resolve_attachments w (e # es) =
     (case resolve_attachment w e of
        (Inl err, ev) \<Rightarrow> (Inl err, ev)
      | (Inr e', ev) \<Rightarrow>
          (case resolve_attachments w es of
             (Inl err, evs) \<Rightarrow> (Inl err, ev @ evs)
           | (Inr es', evs) \<Rightarrow> (Inr (e' # es'), ev @ evs)))"

text \<open>
  The body of the loop of \<open>SMTPClient.sendEmail\<close>:
  \<^verbatim>\<open>const content = attachment.content || await fs.promises.readFile(attachment.filepath);
  const filename = attachment.filename || basename(attachment.filepath);
  const contentType = attachment.contentType || mime.lookup(filename) || 'application/octet-stream';
  attachments.push({ filename,
    content: typeof content === 'string' ? Buffer.from(content, 'base64') : content,
    contentType });\<close>
\<close>

definition smtp_attachment :: "world \<Rightarrow> attachment \<Rightarrow> mail_attachment outcome" where
  "smtp_attachment w a =
     (case content_or_read w a of
        (Inl err, ev) \<Rightarrow> (Inl err, ev)
      | (Inr c, ev) \<Rightarrow>
          (let fname = or_string (filename a) (basename (filepath a));
               ctype = or_string (contentType a) (or_string (mime_lookup w fname) octet_stream)
           in (Inr \<lparr>ma_filename = fname,
                    ma_content = (case c of Text t \<Rightarrow> fromBase64 w t | Buffer b \<Rightarrow> b),
                    ma_contentType = ctype\<rparr>,
               ev)))"

fun smtp_attachments :: "world \<Rightarrow> attachment list \<Rightarrow> mail_attachment list outcome" where
  "smtp_attachments w [] = (Inr [], [])"
| "smtp_attachments w (a # as) =
     (case smtp_attachment w a of
        (Inl err, ev) \<Rightarrow> (Inl err, ev)
      | (Inr a', ev) \<Rightarrow>
          (case smtp_attachments w as of
             (Inl err, evs) \<Rightarrow> (Inl err, ev @ evs)
           | (Inr as', evs) \<Rightarrow> (Inr (a' # as'), ev @ evs)))"

section \<open>The HTTP dispatcher\<close>

text \<open>
  \<^verbatim>\<open>let extraHeaders: Record<string, string> = {};
  if (options.headers) {
    Object.entries(options.headers).forEach(([key, value]) => extraHeaders[key] = value);
    delete options.headers;
  }\<close>
  A headers object is truthy whenever it is present. The assignment
  \<open>extraHeaders[key] = value\<close> sets a property of a plain object: for every key but one it
  creates or overwrites the own property; for the key \<open>__proto__\<close> it reaches the setter
  that \<open>Object.prototype\<close> has under that name, which ignores a string, so nothing is
  stored. (The reordering of integer-like keys is not modelled.)
\<close>

definition set_property :: "js_string \<Rightarrow> js_string \<Rightarrow> string_record \<Rightarrow> string_record" where
  "set_property k v obj = (if k = js ''__proto__'' then obj else AList.update k v obj)"

definition set_all :: "string_record \<Rightarrow> string_record \<Rightarrow> string_record" where
  "set_all target src = fold (\<lambda>kv. set_property (fst kv) (snd kv)) src target"

definition extract_headers :: "email_options \<Rightarrow> string_record \<times> email_options" where
  "extract_headers options =
     (case headers options of
        None \<Rightarrow> ([], options)
      | Some hs \<Rightarrow> (set_all [] hs, options\<lparr>headers := None\<rparr>))"

text \<open>
  The spread \<open>...extraHeaders\<close> in an object literal defines each own property of
  \<open>extraHeaders\<close> on the new object, after the properties written before it.
\<close>

definition assign_all :: "string_record \<Rightarrow> string_record \<Rightarrow> string_record" where
  "assign_all target src = fold (\<lambda>kv. AList.update (fst kv) (snd kv)) src target"

definition API_ENDPOINT :: js_string where
  "API_ENDPOINT = js ''https://api.shoutbox.net/send''"

text \<open>
  \<^verbatim>\<open>headers: { Authorization: `Bearer ${this.apiKey}`, 'Content-Type': "application/json",
             ...extraHeaders }\<close>
\<close>

definition request_headers :: "shoutbox \<Rightarrow> string_record \<Rightarrow> string_record" where
  "request_headers this extraHeaders =
     assign_all [(js ''Authorization'', js ''Bearer '' @ apiKey this),
                 (js ''Content-Type'', js ''application/json'')] extraHeaders"

definition fetch_request :: "js_string \<Rightarrow> shoutbox \<Rightarrow> string_record \<Rightarrow> js_string \<Rightarrow> request" where
  "fetch_request endpoint this extraHeaders emailContent =
     \<lparr>url = endpoint, http_method = js ''POST'',
      req_headers = request_headers this extraHeaders, body = emailContent\<rparr>"

text \<open>
  The \<open>try\<close> block of \<open>send\<close>: the request, then the branch on \<open>response.ok\<close>; whatever
  is thrown inside is logged and thrown again.
  \<^verbatim>\<open>try {
    const response = await fetch(API_ENDPOINT, { method: "POST", headers: ..., body: emailContent });
    if (response.ok) { console.log("Email sent successfully:", await response.json()); }
    else { console.error("Failed to send email:", await response.text()); }
  } catch (error) { console.error("Error during fetch operation:", error); throw error; }\<close>
\<close>

definition post_attempt :: "world \<Rightarrow> request \<Rightarrow> unit outcome" where
  "post_attempt w req =
     (case fetch w req of
        Inl err \<Rightarrow> (Inl err, [Fetch req])
      | Inr response \<Rightarrow>
          if ok response
          then (case json_body response of
                  Inl err \<Rightarrow> (Inl err, [Fetch req])
                | Inr j \<Rightarrow> (Inr (), [Fetch req,
                                     ConsoleLog [LStr (js ''Email sent successfully:''), LJson j]]))
          else (case text_body response of
                  Inl err \<Rightarrow> (Inl err, [Fetch req])
                | Inr t \<Rightarrow> (Inr (), [Fetch req,
                                     ConsoleError [LStr (js ''Failed to send email:''), LStr t]])))"

definition post :: "world \<Rightarrow> request \<Rightarrow> unit outcome" where
  "post w req =
     (case post_attempt w req of
        (Inl err, ev) \<Rightarrow>
          (Inl err, ev @ [ConsoleError [LStr (js ''Error during fetch operation:''), LErr err]])
      | (Inr u, ev) \<Rightarrow> (Inr u, ev))"

text \<open>
  \<^verbatim>\<open>const emailContent = JSON.stringify(options);\<close> The loop has replaced the attachments
  of \<open>options\<close> by the resolved ones, in place.
\<close>

definition http_body :: "email_options \<Rightarrow> attachment list \<Rightarrow> js_string" where
  "http_body options es =
     stringify (options_json (options\<lparr>attachments := map_option (\<lambda>_. es) (attachments options)\<rparr>))"

subsection \<open>\<open>Shoutbox.send\<close> of src/index.ts\<close>

text \<open>
  Headers, attachments, serialisation, the size check
  \<^verbatim>\<open>if (emailContent.length > 1024 * 1024) {
    throw new Error(`Body too large, expect 1MB, ${emailContent.length} bytes given`); }\<close>
  then \<^verbatim>\<open>console.log(emailContent);\<close> and the request.
\<close>

definition send :: "world \<Rightarrow> shoutbox \<Rightarrow> email_options \<Rightarrow> unit outcome" where
  "send w this options =
     (case extract_headers options of
        (extraHeaders, options1) \<Rightarrow>
          (case resolve_attachments w (case attachments options1 of None \<Rightarrow> [] | Some es \<Rightarrow> es) of
             (Inl err, ev) \<Rightarrow> (Inl err, ev)
           | (Inr es', ev) \<Rightarrow>
               (let emailContent = http_body options1 es'
                in if length emailContent > 1024 * 1024
                   then (Inl (BodyTooLarge (length emailContent)), ev)
                   else (case post w (fetch_request API_ENDPOINT this extraHeaders emailContent) of
                           (r, ev') \<Rightarrow> (r, ev @ [ConsoleLog [LStr emailContent]] @ ev')))))"

subsection \<open>\<open>Shoutbox.send\<close> of the revision with template rendering\<close>

text \<open>
  \<^verbatim>\<open>const API_ENDPOINT = process.env.SHOUTBOX_API_ENDPOINT ?? "https://api.shoutbox.net/send";\<close>
\<close>

definition API_ENDPOINT_r :: "world \<Rightarrow> js_string" where
  "API_ENDPOINT_r w = (case env_API_ENDPOINT w of None \<Rightarrow> API_ENDPOINT | Some e \<Rightarrow> e)"

text \<open>
  \<^verbatim>\<open>if (options.react) {
    const renderedHtml = await render(options.react);
    options.html = this.cleanRenderedHtml(renderedHtml);
  }\<close>
\<close>

definition render_clean :: "world \<Rightarrow> email_options \<Rightarrow> email_options outcome" where
  "render_clean w options =
     (case react options of
        None \<Rightarrow> (Inr options, [])
      | Some r \<Rightarrow>
          if truthy_json r
          then (case render w r of
                  Inl err \<Rightarrow> (Inl err, [Render r])
                | Inr renderedHtml \<Rightarrow>
                    (Inr (options\<lparr>html := Some (cleanRenderedHtml renderedHtml)\<rparr>), [Render r]))
          else (Inr options, []))"

definition send_r :: "world \<Rightarrow> shoutbox \<Rightarrow> email_options \<Rightarrow> unit outcome" where
  "send_r w this options =
     (case extract_headers options of
        (extraHeaders, options1) \<Rightarrow>
          (case render_clean w options1 of
             (Inl err, ev0) \<Rightarrow> (Inl err, ev0)
           | (Inr options2, ev0) \<Rightarrow>
               (case resolve_attachments w
                       (case attachments options2 of None \<Rightarrow> [] | Some es \<Rightarrow> es) of
                  (Inl err, ev) \<Rightarrow> (Inl err, ev0 @ ev)
                | (Inr es', ev) \<Rightarrow>
                    (let emailContent = http_body options2 es'
                     in if length emailContent > 1024 * 1024
                        then (Inl (BodyTooLarge (length emailContent)), ev0 @ ev)
                        else (case post w (fetch_request (API_ENDPOINT_r w) this extraHeaders
                                             emailContent) of
                                (r, ev') \<Rightarrow> (r, ev0 @ ev @ ev'))))))"

subsection \<open>\<open>sendEmail\<close> and \<open>sendEmails\<close>\<close>

text \<open>
  \<open>Promise.all\<close> fulfils with the values in input order when every promise fulfils, and
  rejects with the reason of the promise that rejects first. Which one rejects first is
  decided by the timing of the input and output, not by the program: \<open>order\<close> lists the
  indices in the order in which the promises settle (indices it leaves out settle
  afterwards, in input order). The effects of the sends are listed send after send;
  their interleaving in time is not modelled.
\<close>

fun first_rejection :: "nat list \<Rightarrow> (error + 'a) list \<Rightarrow> error option" where
  "first_rejection [] rs = None"
| "first_rejection (i # is) rs =
     (if i < length rs
      then (case rs ! i of Inl err \<Rightarrow> Some err | Inr _ \<Rightarrow> first_rejection is rs)
      else first_rejection is rs)"

fun values_of :: "(error + 'a) list \<Rightarrow> 'a list" where
  "values_of [] = []"
| "values_of (Inr v # rs) = v # values_of rs"
| "values_of (Inl err # rs) = values_of rs"

definition promise_all :: "nat list \<Rightarrow> (error + 'a) list \<Rightarrow> error + 'a list" where
  "promise_all order rs =
     (case first_rejection (order @ [0..<length rs]) rs of
        Some err \<Rightarrow> Inl err
      | None \<Rightarrow> Inr (values_of rs))"

definition sendEmail :: "world \<Rightarrow> shoutbox \<Rightarrow> email_options \<Rightarrow> unit outcome" where
  "sendEmail w this options = send w this options"

text \<open>
  \<^verbatim>\<open>public sendEmails(options: EmailOptions[]): Promise<void[]> {
    return Promise.all(options.map((option) => this.send(option))); }\<close>
\<close>

definition sendEmails ::
  "world \<Rightarrow> shoutbox \<Rightarrow> nat list \<Rightarrow> email_options list \<Rightarrow> unit list outcome" where
  "sendEmails w this order options =
     (let sends = map (send w this) options
      in (promise_all order (map fst sends), concat (map snd sends)))"

definition sendEmails_r ::
  "world \<Rightarrow> shoutbox \<Rightarrow> nat list \<Rightarrow> email_options list \<Rightarrow> unit list outcome" where
  "sendEmails_r w this order options =
     (let sends = map (send_r w this) options
      in (promise_all order (map fst sends), concat (map snd sends)))"

section \<open>The SMTP dispatcher (src/smtp.ts)\<close>

text \<open>
  \<^verbatim>\<open>if (options.react) { options.html = await renderAsync(options.react); }\<close>
\<close>

definition render_plain :: "world \<Rightarrow> email_options \<Rightarrow> email_options outcome" where
  "render_plain w options =
     (case react options of
        None \<Rightarrow> (Inr options, [])
      | Some r \<Rightarrow>
          if truthy_json r
          then (case render w r of
                  Inl err \<Rightarrow> (Inl err, [Render r])
                | Inr renderedHtml \<Rightarrow> (Inr (options\<lparr>html := Some renderedHtml\<rparr>), [Render r]))
          else (Inr options, []))"

text \<open>
  \<^verbatim>\<open>const mailOptions = {
    from: options.name ? `${options.name} <${options.from}>` : options.from,
    to: Array.isArray(options.to) ? options.to.join(', ') : options.to,
    cc: options.cc ? (Array.isArray(options.cc) ? options.cc.join(', ') : options.cc) : undefined,
    subject: options.subject,
    html: options.html,
    text: options.text || (options.html ? this.stripHtml(options.html) : undefined),
    replyTo: options.replyTo,
    attachments,
    headers: options.headers || {},
  };\<close>
\<close>

definition address_list :: "recipients \<Rightarrow> js_string" where
  "address_list r = (case r of Single s \<Rightarrow> s | Several xs \<Rightarrow> join (js '', '') xs)"

definition text_fallback :: "email_options \<Rightarrow> js_string option" where
  "text_fallback options =
     (if truthy (text' options) then text' options
      else if truthy (html options) then map_option stripHtml (html options)
      else None)"

definition mailOptions :: "email_options \<Rightarrow> mail_attachment list \<Rightarrow> mail_options" where
  "mailOptions options atts =
     \<lparr>m_from = (case name options of
                  None \<Rightarrow> from' options
                | Some n \<Rightarrow> if n = [] then from' options
                           else n @ js '' <'' @ from' options @ js ''>''),
      m_to = address_list (to' options),
      m_cc = (if truthy_recipients (cc options) then map_option address_list (cc options)
              else None),
      m_subject = subject options,
      m_html = html options,
      m_text = text_fallback options,
      m_replyTo = replyTo options,
      m_attachments = atts,
      m_headers = (case headers options of None \<Rightarrow> [] | Some hs \<Rightarrow> hs)\<rparr>"

definition smtp_attempt :: "world \<Rightarrow> smtp_client \<Rightarrow> email_options \<Rightarrow> unit outcome" where
  "smtp_attempt w this options =
     (case render_plain w options of
        (Inl err, ev0) \<Rightarrow> (Inl err, ev0)
      | (Inr options1, ev0) \<Rightarrow>
          (case smtp_attachments w (case attachments options1 of None \<Rightarrow> [] | Some as \<Rightarrow> as) of
             (Inl err, ev) \<Rightarrow> (Inl err, ev0 @ ev)
           | (Inr atts, ev) \<Rightarrow>
               (let m = mailOptions options1 atts
                in (sendMail w this m, ev0 @ ev @ [SendMail m]))))"

text \<open>
  \<^verbatim>\<open>public async sendEmail(options: EmailOptions): Promise<void> {
    try { ... await this.transporter.sendMail(mailOptions); }
    catch (error) { console.error('SMTP Error:', error); throw error; } }\<close>
\<close>

definition smtp_sendEmail :: "world \<Rightarrow> smtp_client \<Rightarrow> email_options \<Rightarrow> unit outcome" where
  "smtp_sendEmail w this options =
     (case smtp_attempt w this options of
        (Inl err, ev) \<Rightarrow> (Inl err, ev @ [ConsoleError [LStr (js ''SMTP Error:''), LErr err]])
      | (Inr u, ev) \<Rightarrow> (Inr u, ev))"

definition smtp_sendEmails ::
  "world \<Rightarrow> smtp_client \<Rightarrow> nat list \<Rightarrow> email_options list \<Rightarrow> unit list outcome" where
  "smtp_sendEmails w this order options =
     (let sends = map (smtp_sendEmail w this) options
      in (promise_all order (map fst sends), concat (map snd sends)))"

section \<open>The shape of a rendered document\<close>



definition unmatched :: "(js_string \<Rightarrow> nat option) \<Rightarrow> js_string \<Rightarrow> js_string \<Rightarrow> bool" where
  "unmatched m p s = list_all (\<lambda>k. m (drop k p @ s) = None) [0..<length p]"

section \<open>Example inputs\<close>

text \<open>
  A world in which the file \<open>docs/a.txt\<close> holds the two bytes of \<open>hi\<close> and no other file can be
  read, \<open>mime.lookup\<close> knows the extension \<open>.txt\<close>, the renderer returns a small document
  with the artifacts of the renderer around it, the server answers 200 with \<open>{}\<close>, and the
  SMTP submission succeeds. The codec stands in for base64 on the one value used.
\<close>

definition rendered_page :: js_string where
  "rendered_page = js ''<!DOCTYPE html><html><p>Hi</p></html>''"

definition world0 :: world where
  "world0 =
     \<lparr>env_API_KEY = None,
      env_API_ENDPOINT = None,
      readFile = (\<lambda>p. if p = js ''docs/a.txt'' then Inr [0x68, 0x69] else Inl (External (js ''ENOENT''))),
      mime_lookup = (\<lambda>f. if f = js ''a.txt'' then Some (js ''text/plain'') else None),
      render = (\<lambda>r. Inr rendered_page),
      fetch = (\<lambda>r. Inr \<lparr>status = 200, json_body = Inr (JObject []), text_body = Inr (js ''{}'')\<rparr>),
      sendMail = (\<lambda>c m. Inr ()),
      toBase64 = (\<lambda>b. if b = [0x68, 0x69] then js ''aGk='' else []),
      fromBase64 = (\<lambda>s. if s = js ''aGk='' then [0x68, 0x69] else [])\<rparr>"

text \<open>The same world with a server that rejects every request with status 400.\<close>

definition world_rejecting :: world where
  "world_rejecting =
     world0\<lparr>fetch := (\<lambda>r. Inr \<lparr>status = 400, json_body = Inl (External (js ''not JSON'')),
                                 text_body = Inr (js ''bad request'')\<rparr>)\<rparr>"

definition client0 :: shoutbox where
  "client0 = \<lparr>apiKey = js ''key''\<rparr>"

definition smtp0 :: smtp_client where
  "smtp0 = \<lparr>host = js ''mail.shoutbox.net'', port = 587, secure = False,
            auth_user = js ''shoutbox'', auth_pass = js ''key'', rejectUnauthorized = True\<rparr>"

definition mail0 :: email_options where
  "mail0 =
     \<lparr>from' = js ''a@x.io'', name = None, to' = Single (js ''b@y.io''), subject = js ''Hello'',
      html = Some (js ''<h1>Hi</h1><p>Bye</p>''), text' = None, react = None,
      attachments = None, replyTo = None, tags = None, headers = None, cc = None\<rparr>"

definition mail_empty_html :: email_options where
  "mail_empty_html = mail0\<lparr>html := Some (js '''')\<rparr>"

text \<open>
  Attachments: one to be read from the file, one with base64 text supplied inline and an
  empty \<open>filepath\<close>, and one whose supplied content is the empty string.
\<close>

definition att_file :: attachment where
  "att_file = \<lparr>filename = None, filepath = js ''docs/a.txt'', contentType = None, content = None\<rparr>"

definition att_inline :: attachment where
  "att_inline = \<lparr>filename = None, filepath = js '''', contentType = None,
                  content = Some (Text (js ''aGk=''))\<rparr>"


text \<open>
  Messages with a custom header, and with a header that has the name of a built-in one;
  the requests they give. In \<open>json_text\<close> a JSON text is written with a backquote in
  the place of each double quote.
\<close>

definition json_text :: "string \<Rightarrow> js_string" where
  "json_text s = map (\<lambda>c. if c = CHR 0x60 then 0x22 else of_char c) s"

definition mail_headers :: email_options where
  "mail_headers = mail0\<lparr>headers := Some [(js ''X-A'', js ''1'')]\<rparr>"

definition mail_auth :: email_options where
  "mail_auth = mail0\<lparr>headers := Some [(js ''Authorization'', js ''Basic abc'')]\<rparr>"

definition request_x :: request where
  "request_x = \<lparr>url = js ''https://api.shoutbox.net/send'', http_method = js ''POST'',
                 req_headers = [(js ''Authorization'', js ''Bearer key''),
                                (js ''Content-Type'', js ''application/json''),
                                (js ''X-A'', js ''1'')],
                 body = http_body mail0 []\<rparr>"

definition request_auth :: request where
  "request_auth = \<lparr>url = js ''https://api.shoutbox.net/send'', http_method = js ''POST'',
                    req_headers = [(js ''Authorization'', js ''Basic abc''),
                                   (js ''Content-Type'', js ''application/json'')],
                    body = http_body mail0 []\<rparr>"

text \<open>
  The request for \<open>mail0\<close>, the answer of the rejecting server, and a message whose
  attachment cannot be read.
\<close>

definition request0 :: request where
  "request0 = \<lparr>url = js ''https://api.shoutbox.net/send'', http_method = js ''POST'',
                req_headers = [(js ''Authorization'', js ''Bearer key''),
                               (js ''Content-Type'', js ''application/json'')],
                body = http_body mail0 []\<rparr>"

definition response_400 :: response where
  "response_400 = \<lparr>status = 400, json_body = Inl (External (js ''not JSON'')),
                    text_body = Inr (js ''bad request'')\<rparr>"

definition att_missing :: attachment where
  "att_missing = \<lparr>filename = None, filepath = js ''missing.bin'', contentType = None,
                   content = None\<rparr>"

definition mail_unreadable :: email_options where
  "mail_unreadable = mail0\<lparr>attachments := Some [att_missing]\<rparr>"

text \<open>
  A message whose HTML body is 600000 times the letter U+00E9 (one code unit, two bytes in
  UTF-8), and a message with a template; the requests they give.
\<close>

definition big_html :: js_string where
  "big_html = replicate 600000 0xE9"

definition mail_big :: email_options where
  "mail_big = mail0\<lparr>html := Some big_html\<rparr>"

definition request_big :: request where
  "request_big = \<lparr>url = js ''https://api.shoutbox.net/send'', http_method = js ''POST'',
                   req_headers = [(js ''Authorization'', js ''Bearer key''),
                                  (js ''Content-Type'', js ''application/json'')],
                   body = http_body mail_big []\<rparr>"



text \<open>
  A message with a header named \<open>__proto__\<close> beside the header \<open>X-A\<close>: the headers object
  that \<open>JSON.parse\<close> gives for \<open>{"X-A":"1","__proto__":"x"}\<close>.
\<close>

definition mail_proto :: email_options where
  "mail_proto = mail0\<lparr>headers := Some [(js ''X-A'', js ''1''), (js ''__proto__'', js ''x'')]\<rparr>"

text \<open>
  A server that answers every request with status 500 and whose response body cannot be
  read: \<open>response.text()\<close> rejects.
\<close>

definition response_500 :: response where
  "response_500 = \<lparr>status = 500, json_body = Inl (External (js ''not JSON'')),
                    text_body = Inl (External (js ''aborted''))\<rparr>"

definition world_aborting :: world where
  "world_aborting = world0\<lparr>fetch := (\<lambda>r. Inr response_500)\<rparr>"











section \<open>Construction requires a credential\<close>

text \<open>
  C4 (as amended). Constructing the HTTP dispatcher with an absent or empty credential and
  no SHOUTBOX_API_KEY in the environment fails with the configuration error, in both
  revisions of the constructor (the later one also for \<open>null\<close> and for an empty string
  whatever the environment holds). The constructor of \<open>SMTPClient\<close> checks nothing: it
  returns a client for every credential, the empty string included.
\<close>

theorem constructor_requires_key:
  "Shoutbox_constructor (w\<lparr>env_API_KEY := None\<rparr>) None = Inl ApiKeyRequired
   \<and> Shoutbox_constructor (w\<lparr>env_API_KEY := None\<rparr>) (Some []) = Inl ApiKeyRequired
   \<and> Shoutbox_constructor_r (w\<lparr>env_API_KEY := None\<rparr>) Undefined = Inl ApiKeyRequired
   \<and> Shoutbox_constructor_r w Null = Inl ApiKeyRequired
   \<and> Shoutbox_constructor_r w (Key []) = Inl ApiKeyRequired
   \<and> SMTPClient_constructor key
       = Inr \<lparr>host = js ''mail.shoutbox.net'', port = 587, secure = False,
              auth_user = js ''shoutbox'', auth_pass = key, rejectUnauthorized = True\<rparr>"
  by (simp add: Shoutbox_constructor_def Shoutbox_constructor_r_def SMTPClient_constructor_def
      truthy_def)

text \<open>
  C4 as stated fails for the SMTP dispatcher: constructed with the empty string, it does
  not fail.
\<close>

theorem smtp_constructor_accepts_empty_key:
  "\<not> isl (SMTPClient_constructor (js ''''))"
  by (simp add: SMTPClient_constructor_def)

section \<open>Effects of the parts of a send\<close>

lemma read_file_events: "read_file w p = (r, ev) \<Longrightarrow> ev = [ReadFile p]"
  by (auto simp: read_file_def split: sum.splits)

lemma content_or_read_events:
  "content_or_read w a = (r, ev) \<Longrightarrow> e \<in> set ev \<Longrightarrow> e = ReadFile (filepath a)"
  by (auto simp: content_or_read_def split: option.splits if_splits dest!: read_file_events)

lemma smtp_attachment_events:
  "smtp_attachment w a = (r, ev) \<Longrightarrow> e \<in> set ev \<Longrightarrow> e = ReadFile (filepath a)"
  by (auto simp: smtp_attachment_def Let_def split: prod.splits sum.splits
      dest: content_or_read_events)

lemma smtp_attachments_events:
  "smtp_attachments w as = (r, ev) \<Longrightarrow> e \<in> set ev \<Longrightarrow> \<exists>a\<in>set as. e = ReadFile (filepath a)"
proof (induction as arbitrary: r ev)
  case Nil
  then show ?case by simp
next
  case (Cons a as)
  then show ?case
    by (auto split: prod.splits sum.splits dest: smtp_attachment_events)
qed

lemma resolve_attachment_events:
  "resolve_attachment w a = (r, ev) \<Longrightarrow> e \<in> set ev \<Longrightarrow> e = ReadFile (filepath a)"
  by (auto simp: resolve_attachment_def Let_def split: prod.splits sum.splits
      dest: content_or_read_events)

lemma resolve_attachments_events:
  "resolve_attachments w as = (r, ev) \<Longrightarrow> e \<in> set ev \<Longrightarrow> \<exists>a\<in>set as. e = ReadFile (filepath a)"
proof (induction as arbitrary: r ev)
  case Nil
  then show ?case by simp
next
  case (Cons a as)
  then show ?case
    by (auto split: prod.splits sum.splits dest: resolve_attachment_events)
qed

lemma render_plain_events:
  "render_plain w options = (r, ev) \<Longrightarrow> e \<in> set ev \<Longrightarrow> \<exists>j. e = Render j"
  by (auto simp: render_plain_def split: option.splits if_splits sum.splits)

lemma render_clean_events:
  "render_clean w options = (r, ev) \<Longrightarrow> e \<in> set ev \<Longrightarrow> \<exists>j. e = Render j"
  by (auto simp: render_clean_def split: option.splits if_splits sum.splits)

section \<open>The text fallback of the SMTP path\<close>

subsection \<open>Tag stripping removes every tag\<close>

lemma remove_tags_Nil: "remove_tags [] = []"
  by (simp add: remove_tags.simps)

lemma remove_tags_other: "c \<noteq> 0x3C \<Longrightarrow> remove_tags (c # cs) = c # remove_tags cs"
proof -
  assume c: "c \<noteq> 0x3C"
  have t: "takeWhile (\<lambda>c. c \<noteq> 0x3C) (c # cs) = c # takeWhile (\<lambda>c. c \<noteq> 0x3C) cs"
    and d: "dropWhile (\<lambda>c. c \<noteq> 0x3C) (c # cs) = dropWhile (\<lambda>c. c \<noteq> 0x3C) cs"
    using c by simp_all
  show ?thesis
    unfolding remove_tags.simps [of "c # cs"] remove_tags.simps [of cs] t d Let_def
    by (simp only: append_Cons if_distrib [of "\<lambda>x. c # x"] split: if_splits)
qed

lemma remove_tags_open:
  "0x3E \<in> set cs \<Longrightarrow> remove_tags (0x3C # cs) = remove_tags (tl (dropWhile (\<lambda>c. c \<noteq> 0x3E) cs))"
  by (simp add: remove_tags.simps [of "0x3C # cs"] Let_def)

lemma remove_tags_unclosed: "0x3E \<notin> set cs \<Longrightarrow> remove_tags (0x3C # cs) = 0x3C # cs"
  by (simp add: remove_tags.simps [of "0x3C # cs"] Let_def)

lemma match_tag_no_gt: "0x3E \<notin> set s \<Longrightarrow> match_tag s = None"
  by (cases s) (auto simp: match_tag_def until_gt_def)

lemma strip_no_gt: "0x3E \<notin> set s \<Longrightarrow> replace_all match_tag [] s = s"
  by (induction s) (simp_all add: match_tag_no_gt replace_all.simps)

lemma drop_tag: "drop (Suc (Suc (length (takeWhile P cs)))) (c # cs) = tl (dropWhile P cs)"
  by (simp add: dropWhile_eq_drop drop_Suc tl_drop)

lemma strip_open:
  "0x3E \<in> set cs \<Longrightarrow>
   replace_all match_tag [] (0x3C # cs)
   = replace_all match_tag [] (tl (dropWhile (\<lambda>c. c \<noteq> 0x3E) cs))"
  by (simp add: match_tag_def until_gt_def drop_tag replace_all.simps del: drop_Suc_Cons)

lemma strip_other:
  "c \<noteq> 0x3C \<Longrightarrow> replace_all match_tag [] (c # cs) = c # replace_all match_tag [] cs"
  by (simp add: match_tag_def replace_all.simps)

lemma strip_unclosed: "0x3E \<notin> set cs \<Longrightarrow> replace_all match_tag [] (0x3C # cs) = 0x3C # cs"
  by (simp add: match_tag_def until_gt_def strip_no_gt replace_all.simps)

lemma stripHtml_remove_tags: "stripHtml s = remove_tags s"
  unfolding stripHtml_def
proof (induction s rule: length_induct)
  case (1 s)
  show ?case
  proof (cases s)
    case Nil
    then show ?thesis by (simp add: remove_tags_Nil match_tag_def replace_all.simps)
  next
    case (Cons c cs)
    show ?thesis
    proof (cases "c = 0x3C")
      case False
      with Cons 1 show ?thesis by (simp add: strip_other remove_tags_other)
    next
      case True
      show ?thesis
      proof (cases "0x3E \<in> set cs")
        case False
        with True Cons show ?thesis by (simp add: strip_unclosed remove_tags_unclosed)
      next
        case gt: True
        have "length (tl (dropWhile (\<lambda>c. c \<noteq> 0x3E) cs)) < length s"
          using Cons length_dropWhile_le [of "\<lambda>c. c \<noteq> 0x3E" cs] by simp
        with 1 have "replace_all match_tag [] (tl (dropWhile (\<lambda>c. c \<noteq> 0x3E) cs))
                     = remove_tags (tl (dropWhile (\<lambda>c. c \<noteq> 0x3E) cs))" by blast
        with True Cons gt show ?thesis by (simp add: strip_open remove_tags_open)
      qed
    qed
  qed
qed

lemma stripHtml_example: "stripHtml (js ''<h1>Hi</h1><p>Bye</p>'') = js ''HiBye''"
  by (simp add: stripHtml_def js_def match_tag_def until_gt_def replace_all.simps)

subsection \<open>The message that is submitted\<close>

lemma SendMail_in_smtp:
  assumes "SendMail m \<in> set (snd (smtp_sendEmail w this options))"
  shows "\<exists>options1 atts. fst (render_plain w options) = Inr options1 \<and> m = mailOptions options1 atts"
  using assms
  by (auto simp: smtp_sendEmail_def smtp_attempt_def Let_def split: prod.splits sum.splits
      dest: render_plain_events smtp_attachments_events)

lemma mailOptions_text:
  "text' options = None \<Longrightarrow> m_html (mailOptions options atts) = Some h \<Longrightarrow> h \<noteq> [] \<Longrightarrow>
   m_text (mailOptions options atts) = Some (stripHtml h)"
  by (simp add: mailOptions_def text_fallback_def truthy_def)

lemma render_plain_text:
  "fst (render_plain w options) = Inr options1 \<Longrightarrow> text' options1 = text' options"
  by (auto simp: render_plain_def split: option.splits if_splits sum.splits)

lemma smtp_mail0:
  "smtp_sendEmail world0 this mail0 = (Inr (), [SendMail (mailOptions mail0 [])])"
  by (simp add: smtp_sendEmail_def smtp_attempt_def render_plain_def world0_def mail0_def)

text \<open>
  C8 (as amended). On the SMTP path, when \<open>text\<close> is absent and the HTML that is submitted
  (the caller's, or the rendered template) is a non-empty string, the text that is
  submitted is that HTML with every substring from a \<open><\<close> through the next \<open>>\<close> removed:
  \<open>stripHtml\<close>, which is the regular-expression replacement of the source, computes what
  the words of the specification say.
\<close>

theorem smtp_text_fallback:
  assumes "text' options = None"
    and "SendMail m \<in> set (snd (smtp_sendEmail w this options))"
    and "m_html m = Some h" and "h \<noteq> []"
  shows "m_text m = Some (stripHtml h) \<and> stripHtml h = remove_tags h"
proof -
  from assms(2) obtain options1 atts
    where r: "fst (render_plain w options) = Inr options1" and m: "m = mailOptions options1 atts"
    using SendMail_in_smtp by blast
  from r assms(1) have "text' options1 = None" by (simp add: render_plain_text)
  with m assms(3,4) show ?thesis
    by (simp add: mailOptions_text stripHtml_remove_tags)
qed

text \<open>
  The example of the specification: \<open><h1>Hi</h1><p>Bye</p>\<close> gives the text \<open>HiBye\<close>.
\<close>

theorem smtp_text_fallback_witness:
  "text' mail0 = None
   \<and> SendMail (mailOptions mail0 []) \<in> set (snd (smtp_sendEmail world0 smtp0 mail0))
   \<and> m_html (mailOptions mail0 []) = Some (js ''<h1>Hi</h1><p>Bye</p>'')
   \<and> m_text (mailOptions mail0 []) = Some (js ''HiBye'')
   \<and> remove_tags (js ''<h1>Hi</h1><p>Bye</p>'') = js ''HiBye''"
proof -
  have a: "text' mail0 = None" by (simp add: mail0_def)
  have b: "SendMail (mailOptions mail0 []) \<in> set (snd (smtp_sendEmail world0 smtp0 mail0))"
    by (simp add: smtp_mail0)
  have c: "m_html (mailOptions mail0 []) = Some (js ''<h1>Hi</h1><p>Bye</p>'')"
    by (simp add: mailOptions_def mail0_def)
  have d: "js ''<h1>Hi</h1><p>Bye</p>'' \<noteq> []" by (simp add: js_def)
  from smtp_text_fallback [OF a b c d] a b c show ?thesis
    by (simp add: stripHtml_example)
qed

text \<open>
  C8 as stated fails for an HTML body that is present but empty: the source tests
  \<open>options.html ? ... : undefined\<close>, so the text stays absent instead of being the empty
  string that stripping the tags gives.
\<close>

theorem smtp_text_fallback_empty_html:
  "text' mail_empty_html = None
   \<and> html mail_empty_html = Some (js '''')
   \<and> smtp_sendEmail world0 smtp0 mail_empty_html
       = (Inr (), [SendMail (mailOptions mail_empty_html [])])
   \<and> m_text (mailOptions mail_empty_html []) = None
   \<and> stripHtml (js '''') = js ''''"
  by (simp add: smtp_sendEmail_def smtp_attempt_def render_plain_def world0_def mail0_def
      mail_empty_html_def mailOptions_def text_fallback_def truthy_def js_def stripHtml_def
      match_tag_def replace_all.simps)

section \<open>Attachment normalization\<close>

lemma basename_empty_iff: "basename p = [] \<longleftrightarrow> (\<forall>c\<in>set p. c = 0x2F)"
proof -
  let ?d = "dropWhile (\<lambda>c. c = 0x2F) (rev p)"
  have "takeWhile (\<lambda>c. c \<noteq> 0x2F) ?d = [] \<longleftrightarrow> ?d = []"
  proof (cases ?d)
    case Nil
    show ?thesis unfolding Nil by simp
  next
    case (Cons x xs)
    then have "hd ?d \<noteq> 0x2F" using hd_dropWhile [of "\<lambda>c. c = 0x2F" "rev p"] by simp
    with Cons show ?thesis by simp
  qed
  then show ?thesis by (simp add: basename_def dropWhile_eq_Nil_conv)
qed

lemma basename_last_segment:
  assumes "0x2F \<notin> set f" and "f \<noteq> []"
  shows "basename (d @ 0x2F # f) = f" and "basename f = f"
    and "basename (d @ 0x2F # f @ [0x2F]) = f"
proof -
  have r: "rev f \<noteq> []" "0x2F \<notin> set (rev f)" using assms by simp_all
  then have d: "dropWhile (\<lambda>c. c = 0x2F) (rev f @ xs) = rev f @ xs" for xs
    by (cases "rev f") auto
  have t: "takeWhile (\<lambda>c. c \<noteq> 0x2F) (rev f @ 0x2F # xs) = rev f" for xs
    using r(2) by (auto simp: takeWhile_tail takeWhile_eq_all_conv)
  have t': "takeWhile (\<lambda>c. c \<noteq> 0x2F) (rev f) = rev f"
    using r(2) by (auto simp: takeWhile_eq_all_conv)
  have d0: "dropWhile (\<lambda>c. c = 0x2F) (rev f) = rev f"
    using d [of "[]"] by simp
  show "basename (d @ 0x2F # f) = f"
    by (simp add: basename_def d t)
  show "basename f = f"
    by (simp add: basename_def d0 t')
  show "basename (d @ 0x2F # f @ [0x2F]) = f"
    by (simp add: basename_def d t)
qed

lemma or_string_nonempty: "d \<noteq> [] \<Longrightarrow> or_string x d \<noteq> []"
  by (simp add: or_string_def split: option.splits)

lemma or_string_empty_iff: "or_string x d = [] \<longleftrightarrow> \<not> truthy x \<and> d = []"
  by (auto simp: or_string_def truthy_def split: option.splits)

lemma or_string_None: "or_string None d = d"
  by (simp add: or_string_def)

lemma octet_stream_nonempty: "octet_stream \<noteq> []"
  by (simp add: octet_stream_def js_def)




lemmas attachment_eval =
  resolve_attachment_def smtp_attachment_def content_or_read_def read_file_def
  truthy_content_def truthy_def Let_def or_string_def basename_def octet_stream_def world0_def
  js_def

text \<open>The four steps of the loop of \<open>Shoutbox.send\<close>, taken together.\<close>

lemma resolve_attachment_alt:
  "resolve_attachment w e =
     (case content_or_read w e of
        (Inl err, ev) \<Rightarrow> (Inl err, ev)
      | (Inr c, ev) \<Rightarrow>
          (Inr (e\<lparr>filename := Some (or_string (filename e) (basename (filepath e))),
                   contentType :=
                     Some (or_string (contentType e)
                            (or_string (mime_lookup w (or_string (filename e) (basename (filepath e))))
                               octet_stream)),
                   content := Some (case c of Buffer b \<Rightarrow> Text (toBase64 w b) | Text t \<Rightarrow> Text t)\<rparr>),
           ev))"
  by (cases e)
    (auto simp: resolve_attachment_def Let_def truthy_def or_string_def
      split: prod.splits sum.splits option.splits content.splits)

text \<open>
  C6 (as amended). Whenever normalization of an attachment succeeds on the HTTP path it
  succeeds on the SMTP path with the same filename and content type, and then: the content
  is resolved (base64 text on the HTTP path); the content type is non-empty, and when none
  was supplied it is the MIME type looked up for the resolved filename, or
  \<open>application/octet-stream\<close> when the lookup fails; the filename is the supplied one when
  that is non-empty and otherwise \<open>basename(filepath)\<close>, the last path segment. The
  resolved filename is empty exactly when no non-empty filename was supplied and
  \<open>filepath\<close> is empty or consists of slashes only.
\<close>

theorem normalized_attachment:
  assumes "fst (resolve_attachment w a) = Inr a'"
  shows "\<exists>m. fst (smtp_attachment w a) = Inr m
     \<and> (\<exists>t. content a' = Some (Text t))
     \<and> filename a' = Some (ma_filename m) \<and> contentType a' = Some (ma_contentType m)
     \<and> ma_contentType m \<noteq> []
     \<and> ma_filename m = or_string (filename a) (basename (filepath a))
     \<and> (filename a = None \<longrightarrow> ma_filename m = basename (filepath a))
     \<and> (contentType a = None \<longrightarrow>
          ma_contentType m = or_string (mime_lookup w (ma_filename m)) octet_stream)
     \<and> (ma_filename m = [] \<longleftrightarrow> \<not> truthy (filename a) \<and> (\<forall>c\<in>set (filepath a). c = 0x2F))
     \<and> (\<forall>d f. 0x2F \<notin> set f \<and> f \<noteq> [] \<longrightarrow> basename (d @ 0x2F # f) = f \<and> basename f = f)"
  using assms
  by (auto simp: resolve_attachment_alt smtp_attachment_def Let_def or_string_nonempty
      octet_stream_nonempty or_string_empty_iff basename_empty_iff or_string_None
      basename_last_segment
      split: prod.splits sum.splits content.splits)

theorem normalized_attachment_witness:
  "fst (resolve_attachment world0 att_file)
     = Inr \<lparr>filename = Some (js ''a.txt''), filepath = js ''docs/a.txt'',
            contentType = Some (js ''text/plain''), content = Some (Text (js ''aGk=''))\<rparr>
   \<and> fst (smtp_attachment world0 att_file)
     = Inr \<lparr>ma_filename = js ''a.txt'', ma_content = [0x68, 0x69],
            ma_contentType = js ''text/plain''\<rparr>
   \<and> filename att_file = None \<and> contentType att_file = None
   \<and> basename (js ''docs'' @ 0x2F # js ''a.txt'') = js ''a.txt''"
proof -
  have a: "fst (resolve_attachment world0 att_file)
     = Inr \<lparr>filename = Some (js ''a.txt''), filepath = js ''docs/a.txt'',
            contentType = Some (js ''text/plain''), content = Some (Text (js ''aGk=''))\<rparr>"
    by (simp add: attachment_eval att_file_def)
  have b: "filename att_file = None" "contentType att_file = None" "filepath att_file = js ''docs/a.txt''"
    by (simp_all add: att_file_def)
  have c: "0x2F \<notin> set (js ''a.txt'') \<and> js ''a.txt'' \<noteq> []" by (simp add: js_def)
  from normalized_attachment [OF a] obtain m where m:
    "fst (smtp_attachment world0 att_file) = Inr m"
    "Some (js ''a.txt'') = Some (ma_filename m)" "Some (js ''text/plain'') = Some (ma_contentType m)"
    "\<forall>d f. 0x2F \<notin> set f \<and> f \<noteq> [] \<longrightarrow> basename (d @ 0x2F # f) = f \<and> basename f = f"
    by auto
  have d: "ma_content m = [0x68, 0x69]"
    using m(1)
    by (auto simp: attachment_eval att_file_def)
  from m(2,3) d have "m = \<lparr>ma_filename = js ''a.txt'', ma_content = [0x68, 0x69],
            ma_contentType = js ''text/plain''\<rparr>" by simp
  with m(1,4) a b c show ?thesis by simp
qed

text \<open>
  C6 as stated fails for the filename: with the content supplied inline, no filename and
  an empty \<open>filepath\<close> (a required field that is then never read), the filename after
  normalization is the empty string, on both paths.
\<close>

theorem normalized_filename_may_be_empty:
  "fst (resolve_attachment world0 att_inline)
     = Inr \<lparr>filename = Some (js ''''), filepath = js '''', contentType = Some octet_stream,
            content = Some (Text (js ''aGk=''))\<rparr>
   \<and> fst (smtp_attachment world0 att_inline)
     = Inr \<lparr>ma_filename = js '''', ma_content = [0x68, 0x69], ma_contentType = octet_stream\<rparr>"
  by (simp add: attachment_eval att_inline_def)

section \<open>The request of the HTTP dispatcher\<close>

subsection \<open>Custom headers\<close>

lemma assign_all_Nil: "assign_all base [] = base"
  by (simp add: assign_all_def)

lemma assign_all_Cons: "assign_all base (kv # hs) = assign_all (AList.update (fst kv) (snd kv) base) hs"
  by (simp add: assign_all_def)

lemma assign_all_other:
  "k \<notin> fst ` set hs \<Longrightarrow> map_of (assign_all base hs) k = map_of base k"
  by (induction hs arbitrary: base) (auto simp: assign_all_Nil assign_all_Cons update_conv')

lemma assign_all_lookup:
  "distinct (map fst hs) \<Longrightarrow> (k, v) \<in> set hs \<Longrightarrow> map_of (assign_all base hs) k = Some v"
proof (induction hs arbitrary: base)
  case Nil
  then show ?case by simp
next
  case (Cons kv hs)
  show ?case
  proof (cases "(k, v) = kv")
    case True
    with Cons.prems have "k \<notin> fst ` set hs" by force
    then have "map_of (assign_all (AList.update k v base) hs) k = map_of (AList.update k v base) k"
      by (rule assign_all_other)
    with True show ?thesis
      by (auto simp: assign_all_Cons update_conv')
  next
    case False
    with Cons show ?thesis by (auto simp: assign_all_Cons)
  qed
qed

lemma assign_all_keys: "fst ` set (assign_all base hs) = fst ` set base \<union> fst ` set hs"
  by (induction hs arbitrary: base) (auto simp: assign_all_Nil assign_all_Cons dom_update image_iff)

lemma assign_all_distinct: "distinct (map fst base) \<Longrightarrow> distinct (map fst (assign_all base hs))"
  by (induction hs arbitrary: base) (auto simp: assign_all_Nil assign_all_Cons distinct_update)

lemma assign_all_fresh:
  "distinct (map fst hs) \<Longrightarrow> fst ` set base \<inter> fst ` set hs = {} \<Longrightarrow> assign_all base hs = base @ hs"
proof (induction hs arbitrary: base)
  case Nil
  then show ?case by (simp add: assign_all_Nil)
next
  case (Cons kv hs)
  from Cons.prems have "fst kv \<notin> fst ` set base" by auto
  then have u: "AList.update (fst kv) (snd kv) base = base @ [kv]"
    by (induction base) auto
  from Cons.prems have "fst ` set (base @ [kv]) \<inter> fst ` set hs = {}" by auto
  with Cons.IH [of "base @ [kv]"] Cons.prems u show ?case
    by (simp add: assign_all_Cons)
qed

text \<open>
  Setting the entries of a headers object one by one on an empty object gives those
  entries again, without the one named \<open>__proto__\<close>.
\<close>

lemma set_all_filter:
  "set_all base hs = assign_all base (filter (\<lambda>kv. fst kv \<noteq> js ''__proto__'') hs)"
  by (induction hs arbitrary: base) (simp_all add: set_all_def assign_all_def set_property_def)

lemma set_all_distinct:
  "distinct (map fst hs) \<Longrightarrow> set_all [] hs = filter (\<lambda>kv. fst kv \<noteq> js ''__proto__'') hs"
  by (simp add: set_all_filter assign_all_fresh distinct_map_filter)

lemma extract_headers_fst:
  "fst (extract_headers options) = set_all [] (case headers options of None \<Rightarrow> [] | Some hs \<Rightarrow> hs)"
  by (simp add: extract_headers_def set_all_def split: option.splits)

lemma extract_headers_snd: "snd (extract_headers options) = options\<lparr>headers := None\<rparr>"
  by (cases options) (simp add: extract_headers_def split: option.splits)

lemma request_headers_lookup:
  assumes "distinct (map fst hs)" and "(k, v) \<in> set hs" and "k \<noteq> js ''__proto__''"
  shows "map_of (request_headers this (set_all [] hs)) k = Some v"
proof -
  let ?hs = "filter (\<lambda>kv. fst kv \<noteq> js ''__proto__'') hs"
  have "distinct (map fst ?hs)" using assms(1) by (rule distinct_map_filter)
  moreover have "(k, v) \<in> set ?hs" using assms(2,3) by simp
  ultimately show ?thesis
    using assms(1) by (simp add: request_headers_def set_all_distinct assign_all_lookup)
qed

lemma request_headers_no_proto:
  "distinct (map fst hs) \<Longrightarrow> map_of (request_headers this (set_all [] hs)) (js ''__proto__'') = None"
proof -
  assume "distinct (map fst hs)"
  then have "set_all [] hs = filter (\<lambda>kv. fst kv \<noteq> js ''__proto__'') hs" by (rule set_all_distinct)
  moreover have "js ''__proto__'' \<notin> fst ` set (filter (\<lambda>kv. fst kv \<noteq> js ''__proto__'') hs)"
    by auto
  ultimately show ?thesis
    by (simp add: request_headers_def assign_all_other) (simp add: js_def)
qed

lemma request_headers_defaults:
  "js ''Authorization'' \<in> fst ` set (request_headers this extra)"
  "js ''Content-Type'' \<in> fst ` set (request_headers this extra)"
  "distinct (map fst (request_headers this extra))"
  by (simp_all add: request_headers_def assign_all_keys assign_all_distinct js_def)

subsection \<open>When a request is issued, and which\<close>

lemma post_events: "post w req = (r, ev) \<Longrightarrow> Fetch q \<in> set ev \<Longrightarrow> q = req"
  by (auto simp: post_def post_attempt_def split: sum.splits if_splits prod.splits)

lemma post_issues: "Fetch req \<in> set (snd (post w req))"
  by (auto simp: post_def post_attempt_def split: sum.splits)

lemma Fetch_in_send:
  assumes "Fetch r \<in> set (snd (send w this options))"
  shows "\<exists>es. r = fetch_request API_ENDPOINT this (fst (extract_headers options))
                   (http_body (options\<lparr>headers := None\<rparr>) es)
             \<and> fst (resolve_attachments w (case attachments options of None \<Rightarrow> [] | Some es \<Rightarrow> es)) = Inr es
             \<and> length (body r) \<le> 1024 * 1024"
  using assms extract_headers_snd [of options]
  by (auto simp: send_def Let_def fetch_request_def split: prod.splits sum.splits if_splits
      dest: resolve_attachments_events post_events)

lemma Fetch_in_send_r:
  assumes "Fetch r \<in> set (snd (send_r w this options))"
  shows "\<exists>options2 es. r = fetch_request (API_ENDPOINT_r w) this (fst (extract_headers options))
                   (http_body options2 es)
             \<and> fst (render_clean w (options\<lparr>headers := None\<rparr>)) = Inr options2
             \<and> fst (resolve_attachments w (case attachments options2 of None \<Rightarrow> [] | Some es \<Rightarrow> es)) = Inr es
             \<and> length (body r) \<le> 1024 * 1024"
  using assms extract_headers_snd [of options]
  by (auto simp: send_r_def Let_def fetch_request_def split: prod.splits sum.splits if_splits
      dest: resolve_attachments_events post_events render_clean_events)

text \<open>
  The result of a send whose attachments resolve and whose body passes the size check:
  the events of the attachments, the log of the body (in the src/index.ts revision), and
  the request with what follows it.
\<close>

lemma send_result:
  assumes "resolve_attachments w (case attachments options of None \<Rightarrow> [] | Some es \<Rightarrow> es) = (Inr es, ev)"
    and "length (http_body (options\<lparr>headers := None\<rparr>) es) \<le> 1024 * 1024"
  shows "send w this options
         = (fst (post w (fetch_request API_ENDPOINT this (fst (extract_headers options))
                           (http_body (options\<lparr>headers := None\<rparr>) es))),
            ev @ ConsoleLog [LStr (http_body (options\<lparr>headers := None\<rparr>) es)]
               # snd (post w (fetch_request API_ENDPOINT this (fst (extract_headers options))
                                (http_body (options\<lparr>headers := None\<rparr>) es))))"
proof -
  have x: "extract_headers options = (fst (extract_headers options), options\<lparr>headers := None\<rparr>)"
    using extract_headers_snd [of options] by (simp add: prod_eq_iff)
  show ?thesis
    using assms by (subst send_def, subst x) (simp add: Let_def split: prod.splits)
qed

lemma send_r_result:
  assumes "render_clean w (options\<lparr>headers := None\<rparr>) = (Inr options2, ev0)"
    and "resolve_attachments w (case attachments options2 of None \<Rightarrow> [] | Some es \<Rightarrow> es) = (Inr es, ev)"
    and "length (http_body options2 es) \<le> 1024 * 1024"
  shows "send_r w this options
         = (fst (post w (fetch_request (API_ENDPOINT_r w) this (fst (extract_headers options))
                           (http_body options2 es))),
            ev0 @ ev @ snd (post w (fetch_request (API_ENDPOINT_r w) this
                                      (fst (extract_headers options)) (http_body options2 es))))"
proof -
  have x: "extract_headers options = (fst (extract_headers options), options\<lparr>headers := None\<rparr>)"
    using extract_headers_snd [of options] by (simp add: prod_eq_iff)
  show ?thesis
    using assms by (subst send_r_def, subst x) (simp add: Let_def split: prod.splits)
qed

lemma send_issues:
  assumes "fst (resolve_attachments w (case attachments options of None \<Rightarrow> [] | Some es \<Rightarrow> es)) = Inr es"
    and "length (http_body (options\<lparr>headers := None\<rparr>) es) \<le> 1024 * 1024"
  shows "Fetch (fetch_request API_ENDPOINT this (fst (extract_headers options))
                  (http_body (options\<lparr>headers := None\<rparr>) es))
           \<in> set (snd (send w this options))"
proof -
  obtain ev where "resolve_attachments w (case attachments options of None \<Rightarrow> [] | Some es \<Rightarrow> es)
                   = (Inr es, ev)"
    using assms(1) by (metis prod.collapse)
  from send_result [OF this assms(2)] show ?thesis by (simp add: post_issues)
qed

lemma send_r_issues:
  assumes "fst (render_clean w (options\<lparr>headers := None\<rparr>)) = Inr options2"
    and "fst (resolve_attachments w (case attachments options2 of None \<Rightarrow> [] | Some es \<Rightarrow> es)) = Inr es"
    and "length (http_body options2 es) \<le> 1024 * 1024"
  shows "Fetch (fetch_request (API_ENDPOINT_r w) this (fst (extract_headers options))
                  (http_body options2 es))
           \<in> set (snd (send_r w this options))"
proof -
  obtain ev0 where a: "render_clean w (options\<lparr>headers := None\<rparr>) = (Inr options2, ev0)"
    using assms(1) by (metis prod.collapse)
  obtain ev where b: "resolve_attachments w (case attachments options2 of None \<Rightarrow> [] | Some es \<Rightarrow> es)
                   = (Inr es, ev)"
    using assms(2) by (metis prod.collapse)
  from send_r_result [OF a b assms(3)] show ?thesis by (simp add: post_issues)
qed

subsection \<open>The properties of the body\<close>

lemmas stringify_eval =
  http_body_def options_json_def options_props_def field_def recipients_json_def record_json_def
  attachment_json_def content_json_def quote_def escape_unit_def is_high_def is_low_def js_def

lemma body_mail0:
  "http_body mail0 [] = json_text ''{`from`:`a@x.io`,`to`:`b@y.io`,`subject`:`Hello`,`html`:`<h1>Hi</h1><p>Bye</p>`}''"
  by (simp add: stringify_eval mail0_def json_text_def)

lemma field_key: "k' \<in> fst ` set (field k v) \<Longrightarrow> k' = js k"
  by (auto simp: field_def split: option.splits)

lemma field_None: "field k None = []"
  by (simp add: field_def)

lemma no_headers_prop:
  "headers options = None \<Longrightarrow> js ''headers'' \<notin> fst ` set (options_props options)"
  by (auto simp: options_props_def field_None image_Un dest!: field_key) (simp_all add: js_def)

lemma http_body_no_headers:
  assumes "headers options = None"
  shows "\<exists>props. http_body options es = stringify (JObject props) \<and> js ''headers'' \<notin> fst ` set props"
proof -
  have "headers (options\<lparr>attachments := map_option (\<lambda>_. es) (attachments options)\<rparr>) = None"
    using assms by simp
  then show ?thesis
    unfolding http_body_def options_json_def by (blast dest: no_headers_prop)
qed

lemma render_clean_headers:
  "fst (render_clean w options) = Inr options2 \<Longrightarrow> headers options2 = headers options"
  by (auto simp: render_clean_def split: option.splits if_splits sum.splits)

lemma Fetch_in_either:
  assumes "Fetch r \<in> set (snd (send w this options)) \<or> Fetch r \<in> set (snd (send_r w this options))"
  shows "req_headers r = request_headers this (fst (extract_headers options))
       \<and> (\<exists>props. body r = stringify (JObject props) \<and> js ''headers'' \<notin> fst ` set props)"
  using assms
proof
  assume "Fetch r \<in> set (snd (send w this options))"
  then obtain es where "r = fetch_request API_ENDPOINT this (fst (extract_headers options))
                   (http_body (options\<lparr>headers := None\<rparr>) es)"
    using Fetch_in_send by blast
  then show ?thesis
    using http_body_no_headers [of "options\<lparr>headers := None\<rparr>" es]
    by (simp add: fetch_request_def)
next
  assume "Fetch r \<in> set (snd (send_r w this options))"
  then obtain options2 es where r: "r = fetch_request (API_ENDPOINT_r w) this (fst (extract_headers options))
                   (http_body options2 es)"
    and o: "fst (render_clean w (options\<lparr>headers := None\<rparr>)) = Inr options2"
    using Fetch_in_send_r by blast
  from o have "headers options2 = None" by (simp add: render_clean_headers)
  with r show ?thesis
    using http_body_no_headers [of options2 es]
    by (simp add: fetch_request_def)
qed

text \<open>
  For every message with a headers mapping (an object, so its keys are distinct), every
  request that a send issues, in either revision, has a body that is the serialisation of
  an object without a \<open>headers\<close> key, carries each custom header whose name is not
  \<open>__proto__\<close>, with its value, and has the \<open>Authorization\<close> and \<open>Content-Type\<close> headers.
\<close>

lemma custom_headers_are_carried:
  assumes "headers options = Some hs" and "distinct (map fst hs)"
    and "Fetch r \<in> set (snd (send w this options)) \<or> Fetch r \<in> set (snd (send_r w this options))"
  shows "(\<exists>props. body r = stringify (JObject props) \<and> js ''headers'' \<notin> fst ` set props)
       \<and> (\<forall>k v. (k, v) \<in> set hs \<and> k \<noteq> js ''__proto__'' \<longrightarrow> map_of (req_headers r) k = Some v)
       \<and> map_of (req_headers r) (js ''__proto__'') = None
       \<and> js ''Authorization'' \<in> fst ` set (req_headers r)
       \<and> js ''Content-Type'' \<in> fst ` set (req_headers r)"
proof -
  from Fetch_in_either [OF assms(3)] assms(1)
  have h: "req_headers r = request_headers this (set_all [] hs)"
    and b: "\<exists>props. body r = stringify (JObject props) \<and> js ''headers'' \<notin> fst ` set props"
    by (simp_all add: extract_headers_fst)
  have c: "map_of (req_headers r) k = Some v" if "(k, v) \<in> set hs \<and> k \<noteq> js ''__proto__''" for k v
    unfolding h using assms(2) that by (intro request_headers_lookup) auto
  have d: "map_of (req_headers r) (js ''__proto__'') = None"
    unfolding h using assms(2) by (rule request_headers_no_proto)
  have e: "js ''Authorization'' \<in> fst ` set (req_headers r)"
    "js ''Content-Type'' \<in> fst ` set (req_headers r)"
    unfolding h by (rule request_headers_defaults)+
  from b c d e show ?thesis by blast
qed

subsection \<open>Sends in the example world\<close>

lemma post_world0:
  "post world0 req
   = (Inr (), [Fetch req, ConsoleLog [LStr (js ''Email sent successfully:''), LJson (JObject [])]])"
  by (simp add: post_def post_attempt_def ok_def world0_def)

lemma mail0_size: "length (http_body mail0 []) \<le> 1024 * 1024"
  by (simp add: body_mail0 json_text_def)

lemma mail0_facts:
  "mail0\<lparr>headers := None\<rparr> = mail0" "attachments mail0 = None" "headers mail0 = None"
  "apiKey client0 = js ''key''"
  by (simp_all add: mail0_def client0_def)

lemma send_mail0_headers:
  "send w client0 (mail0\<lparr>headers := h\<rparr>)
   = (fst (post w (fetch_request API_ENDPOINT client0 (fst (extract_headers (mail0\<lparr>headers := h\<rparr>)))
                     (http_body mail0 []))),
      ConsoleLog [LStr (http_body mail0 [])]
        # snd (post w (fetch_request API_ENDPOINT client0 (fst (extract_headers (mail0\<lparr>headers := h\<rparr>)))
                     (http_body mail0 []))))"
proof -
  have a: "(mail0\<lparr>headers := h\<rparr>)\<lparr>headers := None\<rparr> = mail0" by (simp add: mail0_def)
  have b: "resolve_attachments w (case attachments (mail0\<lparr>headers := h\<rparr>) of None \<Rightarrow> [] | Some es \<Rightarrow> es)
           = (Inr [], [])"
    by (simp add: mail0_def)
  have c: "length (http_body ((mail0\<lparr>headers := h\<rparr>)\<lparr>headers := None\<rparr>) []) \<le> 1024 * 1024"
    using mail0_size by (simp only: a)
  from send_result [OF b c, of client0] show ?thesis by (simp only: a append_Nil)
qed

lemma send_r_mail0_headers:
  "send_r w client0 (mail0\<lparr>headers := h\<rparr>)
   = (fst (post w (fetch_request (API_ENDPOINT_r w) client0
                     (fst (extract_headers (mail0\<lparr>headers := h\<rparr>))) (http_body mail0 []))),
      snd (post w (fetch_request (API_ENDPOINT_r w) client0
                     (fst (extract_headers (mail0\<lparr>headers := h\<rparr>))) (http_body mail0 []))))"
proof -
  have a: "render_clean w ((mail0\<lparr>headers := h\<rparr>)\<lparr>headers := None\<rparr>) = (Inr mail0, [])"
    by (simp add: render_clean_def mail0_def)
  have b: "resolve_attachments w (case attachments mail0 of None \<Rightarrow> [] | Some es \<Rightarrow> es)
           = (Inr [], [])"
    by (simp add: mail0_def)
  from send_r_result [OF a b mail0_size, of client0] show ?thesis by simp
qed

lemmas request_eval =
  fetch_request_def request_headers_def extract_headers_def set_all_def set_property_def
  assign_all_def API_ENDPOINT_def API_ENDPOINT_r_def client0_def

lemma requests_world0:
  "fetch_request API_ENDPOINT client0 (fst (extract_headers mail0)) (http_body mail0 []) = request0"
  "fetch_request (API_ENDPOINT_r world0) client0 (fst (extract_headers mail0)) (http_body mail0 [])
   = request0"
  "fetch_request API_ENDPOINT client0 (fst (extract_headers mail_headers)) (http_body mail0 [])
   = request_x"
  "fetch_request (API_ENDPOINT_r world0) client0 (fst (extract_headers mail_headers))
     (http_body mail0 []) = request_x"
  "fetch_request API_ENDPOINT client0 (fst (extract_headers mail_auth)) (http_body mail0 [])
   = request_auth"
  "fetch_request (API_ENDPOINT_r world0) client0 (fst (extract_headers mail_auth))
     (http_body mail0 []) = request_auth"
  "fetch_request API_ENDPOINT client0 (fst (extract_headers mail_proto)) (http_body mail0 [])
   = request_x"
  "fetch_request (API_ENDPOINT_r world0) client0 (fst (extract_headers mail_proto))
     (http_body mail0 []) = request_x"
  by (simp_all add: request_eval request0_def request_x_def request_auth_def mail_headers_def
      mail_auth_def mail_proto_def mail0_def world0_def js_def)

lemma send_mail0:
  "send world0 client0 mail0 =
     (Inr (), [ConsoleLog [LStr (http_body mail0 [])], Fetch request0,
               ConsoleLog [LStr (js ''Email sent successfully:''), LJson (JObject [])]])"
  using send_mail0_headers [of world0 None] requests_world0(1)
  by (simp add: mail0_facts post_world0)

lemma send_mail_headers:
  "send world0 client0 mail_headers =
     (Inr (), [ConsoleLog [LStr (http_body mail0 [])], Fetch request_x,
               ConsoleLog [LStr (js ''Email sent successfully:''), LJson (JObject [])]])"
  using send_mail0_headers [of world0 "Some [(js ''X-A'', js ''1'')]"] requests_world0(3)
  by (simp add: mail_headers_def post_world0)

lemma send_mail_auth:
  "send world0 client0 mail_auth =
     (Inr (), [ConsoleLog [LStr (http_body mail0 [])], Fetch request_auth,
               ConsoleLog [LStr (js ''Email sent successfully:''), LJson (JObject [])]])"
  using send_mail0_headers [of world0 "Some [(js ''Authorization'', js ''Basic abc'')]"]
    requests_world0(5)
  by (simp add: mail_auth_def post_world0)

lemma send_r_mail_auth:
  "send_r world0 client0 mail_auth =
     (Inr (), [Fetch request_auth,
               ConsoleLog [LStr (js ''Email sent successfully:''), LJson (JObject [])]])"
  using send_r_mail0_headers [of world0 "Some [(js ''Authorization'', js ''Basic abc'')]"]
    requests_world0(6)
  by (simp add: mail_auth_def post_world0)

lemma send_mail_proto:
  "send world0 client0 mail_proto =
     (Inr (), [ConsoleLog [LStr (http_body mail0 [])], Fetch request_x,
               ConsoleLog [LStr (js ''Email sent successfully:''), LJson (JObject [])]])"
  using send_mail0_headers [of world0 "Some [(js ''X-A'', js ''1''), (js ''__proto__'', js ''x'')]"]
    requests_world0(7)
  by (simp add: mail_proto_def post_world0)

lemma send_r_mail_proto:
  "send_r world0 client0 mail_proto =
     (Inr (), [Fetch request_x,
               ConsoleLog [LStr (js ''Email sent successfully:''), LJson (JObject [])]])"
  using send_r_mail0_headers [of world0 "Some [(js ''X-A'', js ''1''), (js ''__proto__'', js ''x'')]"]
    requests_world0(8)
  by (simp add: mail_proto_def post_world0)

subsection \<open>Custom headers and the built-in headers\<close>

text \<open>
  C10. When the headers mapping of the message (an object, so its keys are distinct) has
  the key \<open>Authorization\<close> or \<open>Content-Type\<close>, every request that a send issues, in
  either revision, carries the caller's value under that name, and no other value: the
  spread of the custom headers comes last in the object literal and overrides the
  built-in header. Such a request is issued whenever the attachments resolve (after
  the template, if any, has been rendered) and the body passes the size check.
\<close>

theorem custom_headers_override_defaults:
  assumes "headers options = Some hs" and "distinct (map fst hs)"
    and "(k, v) \<in> set hs" and "k = js ''Authorization'' \<or> k = js ''Content-Type''"
  shows "(\<forall>r. Fetch r \<in> set (snd (send w this options)) \<or> Fetch r \<in> set (snd (send_r w this options))
            \<longrightarrow> map_of (req_headers r) k = Some v
                \<and> (\<forall>v'. (k, v') \<in> set (req_headers r) \<longrightarrow> v' = v))
     \<and> (\<forall>es. fst (resolve_attachments w (case attachments options of None \<Rightarrow> [] | Some as \<Rightarrow> as)) = Inr es
            \<and> length (http_body (options\<lparr>headers := None\<rparr>) es) \<le> 1024 * 1024
            \<longrightarrow> (\<exists>r. Fetch r \<in> set (snd (send w this options))))
     \<and> (\<forall>options2 es. fst (render_clean w (options\<lparr>headers := None\<rparr>)) = Inr options2
            \<and> fst (resolve_attachments w (case attachments options2 of None \<Rightarrow> [] | Some as \<Rightarrow> as)) = Inr es
            \<and> length (http_body options2 es) \<le> 1024 * 1024
            \<longrightarrow> (\<exists>r. Fetch r \<in> set (snd (send_r w this options))))"
proof -
  have p: "k \<noteq> js ''__proto__''" using assms(4) by (auto simp: js_def)
  have 1: "map_of (req_headers r) k = Some v \<and> (\<forall>v'. (k, v') \<in> set (req_headers r) \<longrightarrow> v' = v)"
    if f: "Fetch r \<in> set (snd (send w this options)) \<or> Fetch r \<in> set (snd (send_r w this options))"
    for r
  proof -
    from Fetch_in_either [OF f] assms(1)
    have h: "req_headers r = request_headers this (set_all [] hs)"
      by (simp add: extract_headers_fst)
    then have m: "map_of (req_headers r) k = Some v"
      using assms(2,3) p by (simp add: request_headers_lookup)
    have "distinct (map fst (req_headers r))" using h by (simp add: request_headers_defaults)
    then have "(k, v') \<in> set (req_headers r) \<Longrightarrow> map_of (req_headers r) k = Some v'" for v'
      by simp
    with m show ?thesis by auto
  qed
  from 1 send_issues [of w options _ this] send_r_issues [of w options _ _ this]
  show ?thesis by blast
qed

theorem custom_headers_override_defaults_witness:
  "headers mail_auth = Some [(js ''Authorization'', js ''Basic abc'')]
   \<and> distinct (map fst [(js ''Authorization'', js ''Basic abc'')])
   \<and> fst (resolve_attachments world0 []) = Inr []
   \<and> fst (render_clean world0 mail0) = Inr mail0
   \<and> length (http_body mail0 []) \<le> 1024 * 1024
   \<and> send world0 client0 mail_auth
       = (Inr (), [ConsoleLog [LStr (http_body mail0 [])], Fetch request_auth,
                   ConsoleLog [LStr (js ''Email sent successfully:''), LJson (JObject [])]])
   \<and> send_r world0 client0 mail_auth
       = (Inr (), [Fetch request_auth,
                   ConsoleLog [LStr (js ''Email sent successfully:''), LJson (JObject [])]])
   \<and> map_of (req_headers request_auth) (js ''Authorization'') = Some (js ''Basic abc'')
   \<and> (js ''Authorization'', js ''Bearer key'') \<notin> set (req_headers request_auth)"
proof -
  have a: "headers mail_auth = Some [(js ''Authorization'', js ''Basic abc'')]"
    by (simp add: mail_auth_def)
  have b: "distinct (map fst [(js ''Authorization'', js ''Basic abc'')])" by simp
  have c: "(js ''Authorization'', js ''Basic abc'') \<in> set [(js ''Authorization'', js ''Basic abc'')]"
    by simp
  have d: "js ''Authorization'' = js ''Authorization'' \<or> js ''Authorization'' = js ''Content-Type''"
    by simp
  have e: "fst (resolve_attachments world0 []) = Inr []"
    "fst (render_clean world0 mail0) = Inr mail0"
    by (simp_all add: render_clean_def mail0_def)
  have f: "js ''Bearer key'' \<noteq> js ''Basic abc''" by (simp add: js_def)
  have g: "Fetch request_auth \<in> set (snd (send_r world0 client0 mail_auth))"
    by (simp add: send_r_mail_auth)
  from custom_headers_override_defaults [OF a b c d, of world0 client0] g
  have "map_of (req_headers request_auth) (js ''Authorization'') = Some (js ''Basic abc'')
        \<and> (\<forall>v'. (js ''Authorization'', v') \<in> set (req_headers request_auth) \<longrightarrow> v' = js ''Basic abc'')"
    by blast
  then have h: "map_of (req_headers request_auth) (js ''Authorization'') = Some (js ''Basic abc'')"
    and i: "(js ''Authorization'', js ''Bearer key'') \<notin> set (req_headers request_auth)"
    using f by auto
  from a b e h i mail0_size show ?thesis
    by (simp add: send_mail_auth send_r_mail_auth)
qed

subsection \<open>A header named \<open>__proto__\<close>\<close>

text \<open>
  C7. The headers are moved out of the options, so that the body has no \<open>headers\<close> key,
  and are copied into the request by assignment, \<open>extraHeaders[key] = value\<close>. That copy
  misses one key: a header named \<open>__proto__\<close> is not stored and the request does not
  carry it. For the headers \<open>X-A: 1\<close> and \<open>__proto__: x\<close> both revisions send the request
  that they send for \<open>X-A: 1\<close> alone.
\<close>

theorem proto_header_is_dropped:
  "headers mail_proto = Some [(js ''X-A'', js ''1''), (js ''__proto__'', js ''x'')]
   \<and> send world0 client0 mail_proto
       = (Inr (), [ConsoleLog [LStr (http_body mail0 [])], Fetch request_x,
                   ConsoleLog [LStr (js ''Email sent successfully:''), LJson (JObject [])]])
   \<and> send_r world0 client0 mail_proto
       = (Inr (), [Fetch request_x,
                   ConsoleLog [LStr (js ''Email sent successfully:''), LJson (JObject [])]])
   \<and> req_headers request_x = [(js ''Authorization'', js ''Bearer key''),
                               (js ''Content-Type'', js ''application/json''),
                               (js ''X-A'', js ''1'')]
   \<and> map_of (req_headers request_x) (js ''__proto__'') = None"
  by (simp add: send_mail_proto send_r_mail_proto) (simp add: mail_proto_def request_x_def js_def)

section \<open>Outcomes of the HTTP dispatcher\<close>

lemma post_rejected:
  "fetch w r = Inr resp \<Longrightarrow> \<not> ok resp \<Longrightarrow> text_body resp = Inr t \<Longrightarrow>
   post w r = (Inr (), [Fetch r, ConsoleError [LStr (js ''Failed to send email:''), LStr t]])"
  by (simp add: post_def post_attempt_def)

lemma post_rejected_unread:
  "fetch w r = Inr resp \<Longrightarrow> \<not> ok resp \<Longrightarrow> text_body resp = Inl err \<Longrightarrow>
   post w r = (Inl err, [Fetch r,
                         ConsoleError [LStr (js ''Error during fetch operation:''), LErr err]])"
  by (simp add: post_def post_attempt_def)

lemma send_posted:
  assumes "Fetch r \<in> set (snd (send w this options))"
  shows "\<exists>ev. send w this options = (fst (post w r), ev @ snd (post w r))"
  using assms
  by (auto simp: send_def Let_def split: prod.splits sum.splits if_splits
      dest: resolve_attachments_events post_events)

lemma send_r_posted:
  assumes "Fetch r \<in> set (snd (send_r w this options))"
  shows "\<exists>ev. send_r w this options = (fst (post w r), ev @ snd (post w r))"
  using assms
  by (auto simp: send_r_def Let_def split: prod.splits sum.splits if_splits
      dest: resolve_attachments_events post_events render_clean_events)

text \<open>
  C2 (as amended). When the server answers a request of a send with a status outside 200
  to 299, the send reads the text of the response. If that succeeds, it writes
  \<open>Failed to send email:\<close> and the text to the error console as its last effect and then
  completes normally: it returns the same (void) value as after a success and throws
  nothing. If reading the text fails, the send writes \<open>Error during fetch operation:\<close> and
  the error to the error console and throws that error. This holds in both revisions,
  and the request is issued whenever the attachments resolve (after the template, if any,
  has been rendered) and the body passes the size check.
\<close>

theorem remote_rejection_is_only_logged:
  "(\<forall>f r resp. (f = send \<or> f = send_r) \<and> Fetch r \<in> set (snd (f w this options))
        \<and> fetch w r = Inr resp \<and> \<not> ok resp
      \<longrightarrow> (\<forall>t. text_body resp = Inr t
             \<longrightarrow> fst (f w this options) = Inr ()
                 \<and> last (snd (f w this options))
                     = ConsoleError [LStr (js ''Failed to send email:''), LStr t])
          \<and> (\<forall>err. text_body resp = Inl err
             \<longrightarrow> fst (f w this options) = Inl err
                 \<and> last (snd (f w this options))
                     = ConsoleError [LStr (js ''Error during fetch operation:''), LErr err]))
   \<and> (\<forall>es. fst (resolve_attachments w (case attachments options of None \<Rightarrow> [] | Some as \<Rightarrow> as)) = Inr es
          \<and> length (http_body (options\<lparr>headers := None\<rparr>) es) \<le> 1024 * 1024
          \<longrightarrow> (\<exists>r. Fetch r \<in> set (snd (send w this options))))
   \<and> (\<forall>options2 es. fst (render_clean w (options\<lparr>headers := None\<rparr>)) = Inr options2
          \<and> fst (resolve_attachments w (case attachments options2 of None \<Rightarrow> [] | Some as \<Rightarrow> as)) = Inr es
          \<and> length (http_body options2 es) \<le> 1024 * 1024
          \<longrightarrow> (\<exists>r. Fetch r \<in> set (snd (send_r w this options))))"
proof -
  have 1: "(\<forall>t. text_body resp = Inr t
             \<longrightarrow> fst (f w this options) = Inr ()
                 \<and> last (snd (f w this options))
                     = ConsoleError [LStr (js ''Failed to send email:''), LStr t])
          \<and> (\<forall>err. text_body resp = Inl err
             \<longrightarrow> fst (f w this options) = Inl err
                 \<and> last (snd (f w this options))
                     = ConsoleError [LStr (js ''Error during fetch operation:''), LErr err])"
    if f: "f = send \<or> f = send_r" and r: "Fetch r \<in> set (snd (f w this options))"
      and resp: "fetch w r = Inr resp" "\<not> ok resp"
    for f r resp
  proof -
    from f r obtain ev where e: "f w this options = (fst (post w r), ev @ snd (post w r))"
      using send_posted send_r_posted by blast
    show ?thesis
      using post_rejected [OF resp] post_rejected_unread [OF resp] by (simp add: e)
  qed
  from 1 send_issues [of w options _ this] send_r_issues [of w options _ _ this]
  show ?thesis by blast
qed

lemma first_rejection_none: "\<forall>r\<in>set rs. \<not> isl r \<Longrightarrow> first_rejection is rs = None"
proof (induction "is")
  case Nil
  show ?case by simp
next
  case (Cons i "is")
  show ?case
  proof (cases "i < length rs")
    case True
    with Cons.prems have "\<not> isl (rs ! i)" by (simp add: nth_mem)
    then obtain v where "rs ! i = Inr v" by (cases "rs ! i") auto
    with True Cons show ?thesis by simp
  next
    case False
    with Cons show ?thesis by simp
  qed
qed

lemma values_of_all: "\<forall>r\<in>set rs. \<not> isl r \<Longrightarrow> values_of rs = map projr rs"
  by (induction rs rule: values_of.induct) auto

lemma promise_all_fulfilled:
  "\<forall>r\<in>set rs. \<not> isl r \<Longrightarrow> promise_all order rs = Inr (map projr rs)"
  by (simp add: promise_all_def first_rejection_none values_of_all)

lemma first_rejection_member: "first_rejection is rs = Some e \<Longrightarrow> Inl e \<in> set rs"
  by (induction "is") (auto split: sum.splits if_splits simp: in_set_conv_nth)

lemma first_rejection_append:
  "first_rejection (xs @ ys) rs
   = (case first_rejection xs rs of Some e \<Rightarrow> Some e | None \<Rightarrow> first_rejection ys rs)"
  by (induction xs) (auto split: sum.splits)

lemma first_rejection_finds:
  "i \<in> set is \<Longrightarrow> i < length rs \<Longrightarrow> isl (rs ! i) \<Longrightarrow> first_rejection is rs \<noteq> None"
  by (induction "is") (auto split: sum.splits)

lemma promise_all_rejected:
  assumes "\<exists>r\<in>set rs. isl r"
  shows "\<exists>e. promise_all order rs = Inl e \<and> Inl e \<in> set rs"
proof -
  from assms obtain i where "i < length rs" "isl (rs ! i)" by (auto simp: in_set_conv_nth)
  then have "first_rejection [0..<length rs] rs \<noteq> None"
    by (intro first_rejection_finds [of i]) auto
  then have "first_rejection (order @ [0..<length rs]) rs \<noteq> None"
    by (auto simp: first_rejection_append split: option.splits)
  then obtain e where e: "first_rejection (order @ [0..<length rs]) rs = Some e" by auto
  with first_rejection_member [OF e] show ?thesis by (simp add: promise_all_def)
qed

text \<open>
  C1 (as amended). \<open>sendEmails\<close> starts a send for every element, whatever happens to the
  others: its effects are those of all the sends. When every send completes, the caller
  receives one (void) value per element, in input order. When some send throws, the
  aggregate call itself fails, with the error of one of the failing elements, and the
  caller receives no list of outcomes. This holds in both revisions.
\<close>

theorem sendEmails_all_or_nothing:
  assumes "(f, g) = (send, sendEmails) \<or> (f, g) = (send_r, sendEmails_r)"
  shows "snd (g w this order options) = concat (map (\<lambda>opt. snd (f w this opt)) options)
     \<and> ((\<forall>opt\<in>set options. fst (f w this opt) = Inr ())
          \<longrightarrow> fst (g w this order options) = Inr (map (\<lambda>opt. ()) options))
     \<and> ((\<exists>opt\<in>set options. isl (fst (f w this opt)))
          \<longrightarrow> (\<exists>opt\<in>set options. \<exists>e. fst (f w this opt) = Inl e
                                     \<and> fst (g w this order options) = Inl e))"
proof -
  let ?rs = "map fst (map (f w this) options)"
  from assms have g: "g w this order options
      = (promise_all order ?rs, concat (map snd (map (f w this) options)))"
    by (auto simp: sendEmails_def sendEmails_r_def)
  have 1: "snd (g w this order options) = concat (map (\<lambda>opt. snd (f w this opt)) options)"
    by (simp add: g comp_def)
  have 2: "fst (g w this order options) = Inr (map (\<lambda>opt. ()) options)"
    if "\<forall>opt\<in>set options. fst (f w this opt) = Inr ()"
  proof -
    from that have "\<forall>r\<in>set ?rs. \<not> isl r" by auto
    then have "promise_all order ?rs = Inr (map projr ?rs)" by (rule promise_all_fulfilled)
    then show ?thesis by (simp add: g comp_def)
  qed
  have 3: "\<exists>opt\<in>set options. \<exists>e. fst (f w this opt) = Inl e \<and> fst (g w this order options) = Inl e"
    if "\<exists>opt\<in>set options. isl (fst (f w this opt))"
  proof -
    from that have "\<exists>r\<in>set ?rs. isl r" by auto
    then obtain e where "promise_all order ?rs = Inl e" "Inl e \<in> set ?rs"
      using promise_all_rejected by blast
    then show ?thesis by (auto simp: g)
  qed
  from 1 2 3 show ?thesis by blast
qed

lemma post_rejecting:
  "post world_rejecting req
   = (Inr (), [Fetch req, ConsoleError [LStr (js ''Failed to send email:''), LStr (js ''bad request'')]])"
  by (simp add: post_def post_attempt_def ok_def world_rejecting_def)

lemma post_aborting:
  "post world_aborting req
   = (Inl (External (js ''aborted'')),
      [Fetch req, ConsoleError [LStr (js ''Error during fetch operation:''),
                                LErr (External (js ''aborted''))]])"
  by (simp add: post_def post_attempt_def ok_def world_aborting_def response_500_def)

lemma requests_other_worlds:
  "fetch_request (API_ENDPOINT_r world_rejecting) client0 (fst (extract_headers mail0))
     (http_body mail0 []) = request0"
  "fetch_request (API_ENDPOINT_r world_aborting) client0 (fst (extract_headers mail0))
     (http_body mail0 []) = request0"
  by (simp_all add: request_eval request0_def mail0_def world0_def world_rejecting_def
      world_aborting_def js_def)

lemma send_mail0_rejected:
  "send world_rejecting client0 mail0 =
     (Inr (), [ConsoleLog [LStr (http_body mail0 [])], Fetch request0,
               ConsoleError [LStr (js ''Failed to send email:''), LStr (js ''bad request'')]])"
  using send_mail0_headers [of world_rejecting None] requests_world0(1)
  by (simp add: mail0_facts post_rejecting)

lemma send_r_mail0_rejected:
  "send_r world_rejecting client0 mail0 =
     (Inr (), [Fetch request0,
               ConsoleError [LStr (js ''Failed to send email:''), LStr (js ''bad request'')]])"
  using send_r_mail0_headers [of world_rejecting None] requests_other_worlds(1)
  by (simp add: mail0_facts post_rejecting)

lemma send_mail0_aborting:
  "send world_aborting client0 mail0 =
     (Inl (External (js ''aborted'')),
      [ConsoleLog [LStr (http_body mail0 [])], Fetch request0,
       ConsoleError [LStr (js ''Error during fetch operation:''), LErr (External (js ''aborted''))]])"
  using send_mail0_headers [of world_aborting None] requests_world0(1)
  by (simp add: mail0_facts post_aborting)

lemma send_mail_unreadable:
  "send world0 client0 mail_unreadable
   = (Inl (External (js ''ENOENT'')), [ReadFile (js ''missing.bin'')])"
  by (simp add: send_def extract_headers_def mail_unreadable_def mail0_def att_missing_def
      attachment_eval)

theorem remote_rejection_is_only_logged_witness:
  "fetch world_rejecting request0 = Inr response_400 \<and> \<not> ok response_400
   \<and> text_body response_400 = Inr (js ''bad request'')
   \<and> fst (resolve_attachments world_rejecting []) = Inr []
   \<and> fst (render_clean world_rejecting mail0) = Inr mail0
   \<and> length (http_body mail0 []) \<le> 1024 * 1024
   \<and> send world_rejecting client0 mail0
       = (Inr (), [ConsoleLog [LStr (http_body mail0 [])], Fetch request0,
                   ConsoleError [LStr (js ''Failed to send email:''), LStr (js ''bad request'')]])
   \<and> send_r world_rejecting client0 mail0
       = (Inr (), [Fetch request0,
                   ConsoleError [LStr (js ''Failed to send email:''), LStr (js ''bad request'')]])
   \<and> fetch world_aborting request0 = Inr response_500 \<and> \<not> ok response_500
   \<and> text_body response_500 = Inl (External (js ''aborted''))
   \<and> fst (send world_aborting client0 mail0) = Inl (External (js ''aborted''))
   \<and> last (snd (send world_aborting client0 mail0))
       = ConsoleError [LStr (js ''Error during fetch operation:''),
                       LErr (External (js ''aborted''))]"
proof -
  have a: "fetch world_rejecting request0 = Inr response_400" "\<not> ok response_400"
    "text_body response_400 = Inr (js ''bad request'')"
    by (simp_all add: world_rejecting_def response_400_def ok_def)
  have b: "fetch world_aborting request0 = Inr response_500" "\<not> ok response_500"
    "text_body response_500 = Inl (External (js ''aborted''))"
    by (simp_all add: world_aborting_def response_500_def ok_def)
  have c: "fst (resolve_attachments world_rejecting []) = Inr []"
    "fst (render_clean world_rejecting mail0) = Inr mail0"
    by (simp_all add: render_clean_def mail0_def)
  have d: "Fetch request0 \<in> set (snd (send world_aborting client0 mail0))"
    by (simp add: send_mail0_aborting)
  have e: "Fetch request0 \<in> set (snd (send_r world_rejecting client0 mail0))"
    by (simp add: send_r_mail0_rejected)
  from remote_rejection_is_only_logged [of world_aborting client0 mail0] b d
  have f: "fst (send world_aborting client0 mail0) = Inl (External (js ''aborted''))
           \<and> last (snd (send world_aborting client0 mail0))
               = ConsoleError [LStr (js ''Error during fetch operation:''),
                               LErr (External (js ''aborted''))]"
    by blast
  from remote_rejection_is_only_logged [of world_rejecting client0 mail0] a e
  have g: "fst (send_r world_rejecting client0 mail0) = Inr ()"
    by blast
  from a b c f g mail0_size show ?thesis
    by (simp add: send_mail0_rejected send_r_mail0_rejected)
qed

text \<open>
  C2 as stated fails: the rejection is not surfaced to the caller as a failure value.
  With a server that answers 400 the send returns what it returns after a success.
\<close>

theorem remote_rejection_looks_like_success:
  "fetch world_rejecting request0 = Inr response_400
   \<and> status response_400 = 400
   \<and> send world_rejecting client0 mail0
       = (Inr (), [ConsoleLog [LStr (http_body mail0 [])], Fetch request0,
                   ConsoleError [LStr (js ''Failed to send email:''), LStr (js ''bad request'')]])
   \<and> fst (send world0 client0 mail0) = Inr ()"
proof -
  have "fetch world_rejecting request0 = Inr response_400"
    by (simp add: world_rejecting_def response_400_def)
  moreover have "status response_400 = 400" by (simp add: response_400_def)
  ultimately show ?thesis by (simp add: send_mail0_rejected send_mail0)
qed

theorem sendEmails_all_or_nothing_witness:
  "fst (send world0 client0 mail0) = Inr ()
   \<and> fst (send world0 client0 mail_headers) = Inr ()
   \<and> fst (sendEmails world0 client0 [1, 0] [mail0, mail_headers]) = Inr [(), ()]
   \<and> fst (send world0 client0 mail_unreadable) = Inl (External (js ''ENOENT''))
   \<and> fst (sendEmails world0 client0 [1, 0] [mail_unreadable, mail0]) = Inl (External (js ''ENOENT''))
   \<and> snd (sendEmails world0 client0 [1, 0] [mail_unreadable, mail0])
       = snd (send world0 client0 mail_unreadable) @ snd (send world0 client0 mail0)"
proof -
  have a: "(send, sendEmails) = (send, sendEmails) \<or> (send, sendEmails) = (send_r, sendEmails_r)"
    by simp
  have b: "\<forall>opt\<in>set [mail0, mail_headers]. fst (send world0 client0 opt) = Inr ()"
    by (simp add: send_mail0 send_mail_headers)
  have c: "\<exists>opt\<in>set [mail_unreadable, mail0]. isl (fst (send world0 client0 opt))"
    by (simp add: send_mail_unreadable)
  from sendEmails_all_or_nothing [OF a, of world0 client0 "[1, 0]" "[mail0, mail_headers]"] b
  have d: "fst (sendEmails world0 client0 [1, 0] [mail0, mail_headers]) = Inr [(), ()]"
    by simp
  from sendEmails_all_or_nothing [OF a, of world0 client0 "[1, 0]" "[mail_unreadable, mail0]"] c
  have e: "fst (sendEmails world0 client0 [1, 0] [mail_unreadable, mail0]) = Inl (External (js ''ENOENT''))"
    and f: "snd (sendEmails world0 client0 [1, 0] [mail_unreadable, mail0])
       = snd (send world0 client0 mail_unreadable) @ snd (send world0 client0 mail0)"
    by (auto simp: send_mail_unreadable send_mail0)
  from b d e f show ?thesis by (simp add: send_mail_unreadable)
qed

text \<open>
  C1 as stated fails: with one failing and one succeeding element the caller does not
  receive two outcomes but the single failure, even when the succeeding send settles
  first.
\<close>

theorem sendEmails_one_failure_fails_all:
  "fst (send world0 client0 mail_unreadable) = Inl (External (js ''ENOENT''))
   \<and> fst (send world0 client0 mail0) = Inr ()
   \<and> fst (sendEmails world0 client0 [1, 0] [mail_unreadable, mail0]) = Inl (External (js ''ENOENT''))"
  by (simp add: sendEmails_def promise_all_def send_mail_unreadable send_mail0)

section \<open>Attachments in the outgoing payload\<close>





































section \<open>The size check of the HTTP dispatcher\<close>

lemma escape_units_plain:
  "\<not> is_high c \<Longrightarrow> \<not> is_low c \<Longrightarrow> escape_units (c # s) = escape_unit c @ escape_units s"
  by (cases s) simp_all

lemma utf8_encode_plain:
  "\<not> is_high c \<Longrightarrow> \<not> is_low c \<Longrightarrow> utf8_encode (c # s) = utf8_unit c @ utf8_encode s"
  by (cases s) simp_all

lemma e9_plain: "\<not> is_high 0xE9" "\<not> is_low 0xE9" "escape_unit 0xE9 = [0xE9]"
  "utf8_unit 0xE9 = [0xC3, 0xA9]"
  by (simp_all add: is_high_def is_low_def escape_unit_def utf8_unit_def)

lemma escape_units_e9: "escape_units (replicate n 0xE9 @ s) = replicate n 0xE9 @ escape_units s"
  by (induction n) (simp_all add: escape_units_plain e9_plain)

lemma utf8_encode_e9:
  "length (utf8_encode (replicate n 0xE9 @ s)) = 2 * n + length (utf8_encode s)"
  by (induction n) (simp_all add: utf8_encode_plain e9_plain)

lemma length_le_byte_length: "length s \<le> byte_length s"
  unfolding byte_length_def
  by (induction s rule: utf8_encode.induct) (auto simp: utf8_unit_def utf8_pair_def Let_def)

lemma big_html_facts:
  "length big_html = 600000"
  "escape_units (big_html @ s) = big_html @ escape_units s"
  "length (utf8_encode (big_html @ s)) = 1200000 + length (utf8_encode s)"
  by (simp_all add: big_html_def escape_units_e9 utf8_encode_e9)

lemma body_mail_big:
  "http_body mail_big []
   = json_text ''{`from`:`a@x.io`,`to`:`b@y.io`,`subject`:`Hello`,`html`:`'' @ big_html @ json_text ''`}''"
proof -
  have "escape_units big_html = big_html"
    using big_html_facts(2) [of "[]"] by simp
  then show ?thesis
    by (simp add: stringify_eval mail0_def mail_big_def json_text_def)
qed

lemma mail_big_length: "length (http_body mail_big []) = 600059"
  by (simp add: body_mail_big json_text_def big_html_facts)

lemma mail_big_bytes: "byte_length (http_body mail_big []) = 1200059"
  by (simp add: body_mail_big json_text_def byte_length_def utf8_encode_plain is_high_def
      is_low_def utf8_unit_def big_html_facts)

text \<open>
  C3. The size check compares \<open>emailContent.length\<close>, a number of UTF-16 code units, with
  1024 * 1024, while its own message calls that number bytes. A body of 600059 code units
  that takes 1200059 bytes on the wire passes the check and is sent.
\<close>

theorem oversized_body_is_sent:
  "length (http_body mail_big []) = 600059
   \<and> byte_length (http_body mail_big []) = 1200059
   \<and> send world0 client0 mail_big
       = (Inr (), [ConsoleLog [LStr (http_body mail_big [])], Fetch request_big,
                   ConsoleLog [LStr (js ''Email sent successfully:''), LJson (JObject [])]])"
proof -
  have a: "mail_big\<lparr>headers := None\<rparr> = mail_big" "attachments mail_big = None"
    "headers mail_big = None"
    by (simp_all add: mail_big_def mail0_def)
  have e: "fetch world0 q = Inr \<lparr>status = 200, json_body = Inr (JObject []), text_body = Inr (js ''{}'')\<rparr>" for q
    by (simp add: world0_def)
  have "send world0 client0 mail_big
       = (Inr (), [ConsoleLog [LStr (http_body mail_big [])], Fetch request_big,
                   ConsoleLog [LStr (js ''Email sent successfully:''), LJson (JObject [])]])"
    by (simp add: send_def extract_headers_def assign_all_def post_def post_attempt_def
        fetch_request_def request_headers_def ok_def API_ENDPOINT_def Let_def
        a mail0_facts(4) e request_big_def mail_big_length js_def)
  then show ?thesis by (simp add: mail_big_length mail_big_bytes)
qed

section \<open>Template rendering\<close>

subsection \<open>What \<open>cleanRenderedHtml\<close> removes\<close>







lemma unmatched_Nil: "unmatched m [] s"
  by (simp add: unmatched_def)









subsection \<open>Which dispatcher cleans the rendered document\<close>









lemma send_never_renders: "Render j \<notin> set (snd (send w this options))"
  by (auto simp: send_def Let_def post_def post_attempt_def
      split: prod.splits sum.splits if_splits dest: resolve_attachments_events)










section \<open>The size check in code units\<close>

text \<open>
  What the check of the source does decide: a body of more than 1024 * 1024 code units
  is refused before any request, with the number of code units in the error; any other
  body is sent, in particular every body of exactly 1048576 bytes.
\<close>

lemma send_size_check:
  assumes "fst (resolve_attachments w (case attachments options of None \<Rightarrow> [] | Some es \<Rightarrow> es)) = Inr es"
  shows "1024 * 1024 < length (http_body (options\<lparr>headers := None\<rparr>) es) \<Longrightarrow>
         fst (send w this options)
           = Inl (BodyTooLarge (length (http_body (options\<lparr>headers := None\<rparr>) es)))
         \<and> (\<forall>r. Fetch r \<notin> set (snd (send w this options)))"
    and "length (http_body (options\<lparr>headers := None\<rparr>) es) \<le> 1024 * 1024 \<Longrightarrow>
         Fetch (fetch_request API_ENDPOINT this (fst (extract_headers options))
                  (http_body (options\<lparr>headers := None\<rparr>) es))
           \<in> set (snd (send w this options))"
proof -
  obtain ev where r: "resolve_attachments w (case attachments options of None \<Rightarrow> [] | Some es \<Rightarrow> es)
                      = (Inr es, ev)"
    using assms by (cases "resolve_attachments w (case attachments options of None \<Rightarrow> [] | Some es \<Rightarrow> es)") auto
  have x: "extract_headers options = (fst (extract_headers options), options\<lparr>headers := None\<rparr>)"
    using extract_headers_snd [of options] by (simp add: prod_eq_iff)
  show "fst (send w this options)
           = Inl (BodyTooLarge (length (http_body (options\<lparr>headers := None\<rparr>) es)))
         \<and> (\<forall>r. Fetch r \<notin> set (snd (send w this options)))"
    if "1024 * 1024 < length (http_body (options\<lparr>headers := None\<rparr>) es)"
    using that r resolve_attachments_events [OF r]
    by (subst (1 2) send_def, subst (1 2) x) (auto simp: Let_def)
  show "Fetch (fetch_request API_ENDPOINT this (fst (extract_headers options))
                  (http_body (options\<lparr>headers := None\<rparr>) es))
           \<in> set (snd (send w this options))"
    if "length (http_body (options\<lparr>headers := None\<rparr>) es) \<le> 1024 * 1024"
    using that r post_issues [of "fetch_request API_ENDPOINT this (fst (extract_headers options))
                  (http_body (options\<lparr>headers := None\<rparr>) es)" w]
    by (subst send_def, subst x) (auto simp: Let_def split: prod.splits)
qed

lemma body_of_one_mebibyte_is_sent:
  assumes "fst (resolve_attachments w (case attachments options of None \<Rightarrow> [] | Some es \<Rightarrow> es)) = Inr es"
    and "byte_length (http_body (options\<lparr>headers := None\<rparr>) es) = 1024 * 1024"
  shows "Fetch (fetch_request API_ENDPOINT this (fst (extract_headers options))
                  (http_body (options\<lparr>headers := None\<rparr>) es))
           \<in> set (snd (send w this options))"
  using send_size_check(2) [OF assms(1)] assms(2)
    length_le_byte_length [of "http_body (options\<lparr>headers := None\<rparr>) es"]
  by simp

end
